theory Spec2Isabelle
  imports Complex_Main "HOL-Library.Log_Nat" "HOL-Library.Sublist"
begin

section \<open>Strings and numbers of the host language\<close>

text \<open>
  The action is TypeScript. A JavaScript string is modelled as a \<open>string\<close>, each
  \<open>char\<close> standing for one code unit below 256; a JavaScript number is an IEEE double,
  modelled by the exact rational it denotes (the sign of zero is dropped, nothing in the
  action observes it). The built-in functions the action calls are written out from the
  ECMAScript and URL standards, under the names the source calls them by.
\<close>

definition code :: "char \<Rightarrow> int" where
  "code c = of_char c"

definition dquote :: char where
  "dquote = CHR 0x22"

text \<open>White space and line terminators below 256: TAB, LF, VT, FF, CR, SP, NBSP.\<close>

definition isWhiteSpace :: "char \<Rightarrow> bool" where
  "isWhiteSpace c = (code c \<in> {9, 10, 11, 12, 13, 32, 160})"

text \<open>\<^verbatim>\<open>String.prototype.trim\<close>.\<close>

definition trim :: "string \<Rightarrow> string" where
  "trim s = rev (dropWhile isWhiteSpace (rev (dropWhile isWhiteSpace s)))"

datatype number = NaN | PosInfinity | NegInfinity | Finite rat

definition negate :: "number \<Rightarrow> number" where
  "negate x = (case x of NaN \<Rightarrow> NaN | PosInfinity \<Rightarrow> NegInfinity
     | NegInfinity \<Rightarrow> PosInfinity | Finite q \<Rightarrow> Finite (- q))"

definition pow2 :: "int \<Rightarrow> rat" where
  "pow2 k = (if 0 \<le> k then 2 ^ nat k else 1 / 2 ^ nat (- k))"

definition pow10 :: "int \<Rightarrow> rat" where
  "pow10 k = (if 0 \<le> k then 10 ^ nat k else 1 / 10 ^ nat (- k))"

text \<open>The binary exponent of a positive rational: the \<open>e\<close> with \<open>2^e \<le> a < 2^(e+1)\<close>.\<close>

definition floorLog2 :: "rat \<Rightarrow> int" where
  "floorLog2 a = (case quotient_of a of (n, d) \<Rightarrow>
     (let k = bitlen n - bitlen d in if pow2 k \<le> a then k else k - 1))"

definition roundHalfEven :: "rat \<Rightarrow> int" where
  "roundHalfEven t = (let f = \<lfloor>t\<rfloor>; r = t - of_int f in
     if r < 1 / 2 then f else if 1 / 2 < r then f + 1 else if even f then f else f + 1)"

text \<open>
  The double nearest to a mathematical value, ties to even: 53 bits of significand, the
  smallest unit \<open>2^-1074\<close>, infinite from \<open>2^1024\<close> on.
\<close>

definition RoundMV :: "rat \<Rightarrow> number" where
  "RoundMV q = (if q = 0 then Finite 0 else
     (let a = \<bar>q\<bar>;
          u = max (floorLog2 a - 52) (- 1074);
          v = of_int (roundHalfEven (a / pow2 u)) * pow2 u
      in if 1024 \<le> floorLog2 v then (if q < 0 then NegInfinity else PosInfinity)
         else Finite (if q < 0 then - v else v)))"

definition digitValue :: "char \<Rightarrow> int option" where
  "digitValue c = (let n = code c in
     if 48 \<le> n \<and> n \<le> 57 then Some (n - 48)
     else if 97 \<le> n \<and> n \<le> 102 then Some (n - 87)
     else if 65 \<le> n \<and> n \<le> 70 then Some (n - 55)
     else None)"

definition isDigit :: "int \<Rightarrow> char \<Rightarrow> bool" where
  "isDigit radix c = (case digitValue c of Some d \<Rightarrow> d < radix | None \<Rightarrow> False)"

definition digitsValue :: "int \<Rightarrow> string \<Rightarrow> int" where
  "digitsValue radix ds =
     foldl (\<lambda>acc c. acc * radix + (case digitValue c of Some d \<Rightarrow> d | None \<Rightarrow> 0)) 0 ds"

definition isDigits :: "int \<Rightarrow> string \<Rightarrow> bool" where
  "isDigits radix ds = (ds \<noteq> [] \<and> list_all (isDigit radix) ds)"

text \<open>The exponent of a decimal literal, after its \<open>e\<close>: an optional sign and digits.\<close>

definition exponentPart :: "string \<Rightarrow> int option" where
  "exponentPart s = (case s of
       [] \<Rightarrow> None
     | c # cs \<Rightarrow>
         if c = CHR ''+'' then (if isDigits 10 cs then Some (digitsValue 10 cs) else None)
         else if c = CHR ''-'' then (if isDigits 10 cs then Some (- digitsValue 10 cs) else None)
         else if isDigits 10 s then Some (digitsValue 10 s) else None)"

text \<open>
  An unsigned decimal literal: \<open>Infinity\<close>, or digits with an optional fraction and an
  optional exponent, at least one digit before or after the point.
\<close>

definition unsignedDecimal :: "string \<Rightarrow> number" where
  "unsignedDecimal s =
     (if s = ''Infinity'' then PosInfinity
      else
        (let ip = takeWhile (isDigit 10) s;
             r1 = dropWhile (isDigit 10) s;
             dot = (case r1 of [] \<Rightarrow> False | c # _ \<Rightarrow> c = CHR ''.'');
             fp = (if dot then takeWhile (isDigit 10) (tl r1) else []);
             r2 = (if dot then dropWhile (isDigit 10) (tl r1) else r1);
             ex = (case r2 of
                     [] \<Rightarrow> Some 0
                   | c # cs \<Rightarrow> if c = CHR ''e'' \<or> c = CHR ''E'' then exponentPart cs else None)
         in if ip = [] \<and> fp = [] then NaN
            else (case ex of
                    None \<Rightarrow> NaN
                  | Some e \<Rightarrow>
                      RoundMV (of_int (digitsValue 10 (ip @ fp)) * pow10 (e - int (length fp))))))"

text \<open>A literal \<open>0x\<close>, \<open>0o\<close> or \<open>0b\<close> with digits of that radix; it takes no sign.\<close>

definition nonDecimal :: "string \<Rightarrow> number option" where
  "nonDecimal s = (case s of
       z # p # ds \<Rightarrow>
         (let radix = (if p = CHR ''x'' \<or> p = CHR ''X'' then 16
                       else if p = CHR ''o'' \<or> p = CHR ''O'' then 8
                       else if p = CHR ''b'' \<or> p = CHR ''B'' then 2 else (0::int))
          in if z = CHR ''0'' \<and> radix \<noteq> 0 \<and> isDigits radix ds
             then Some (RoundMV (of_int (digitsValue radix ds))) else None)
     | _ \<Rightarrow> None)"

text \<open>\<^verbatim>\<open>Number(raw)\<close> on a string: white space around the literal is dropped, the empty
  string is 0, anything that is not a numeric literal is NaN.\<close>

definition Number :: "string \<Rightarrow> number" where
  "Number raw =
     (let s = trim raw in
      case s of
        [] \<Rightarrow> Finite 0
      | c # cs \<Rightarrow>
          (case nonDecimal s of
             Some v \<Rightarrow> v
           | None \<Rightarrow>
               if c = CHR ''+'' then unsignedDecimal cs
               else if c = CHR ''-'' then negate (unsignedDecimal cs)
               else unsignedDecimal s))"

definition digitChar :: "int \<Rightarrow> char" where
  "digitChar d = char_of (48 + d)"

function digitsOf :: "int \<Rightarrow> string" where
  "digitsOf n = (if n < 10 then [digitChar n] else digitsOf (n div 10) @ [digitChar (n mod 10)])"
  by pat_completeness auto
termination
  by (relation "measure nat") auto

declare digitsOf.simps [simp del]

definition roundTrips :: "int \<Rightarrow> int \<Rightarrow> bool" where
  "roundTrips m x = (RoundMV (of_int m) = Finite (of_int x))"

text \<open>
  The \<open>k\<close>-digit number \<open>s\<close> for which \<open>s * 10^(d-k)\<close> reads back as the double \<open>x\<close>, the
  closest to \<open>x\<close> when two do, if there is one.
\<close>

definition closest :: "int \<Rightarrow> nat \<Rightarrow> nat \<Rightarrow> int option" where
  "closest x d k =
     (let p = 10 ^ (d - k);
          lo = x div p;
          hi = lo + 1;
          ok = (\<lambda>s. 10 ^ (k - 1) \<le> s \<and> s < 10 ^ k \<and> roundTrips (s * p) x);
          lower = (x - lo * p < hi * p - x \<or> (x - lo * p = hi * p - x \<and> even lo))
      in if ok lo \<and> ok hi then Some (if lower then lo else hi)
         else if ok lo then Some lo
         else if ok hi then Some hi
         else None)"

text \<open>
  The shortest decimal digits \<open>s\<close> (\<open>k\<close> of them) and the decimal exponent \<open>n\<close> with
  \<open>s * 10^(n-k)\<close> reading back as the integer-valued double \<open>x\<close>. A double reads back
  from its own digits, so the search finds a candidate; the last case is there for an
  integer that is no double, which \<^verbatim>\<open>String\<close> is never given.
\<close>

definition shortest :: "int \<Rightarrow> int \<times> nat \<times> nat" where
  "shortest x =
     (let d = length (digitsOf x) in
      if roundTrips (10 ^ d) x then (1, 1, d + 1)
      else (case List.map_filter (\<lambda>k. map_option (\<lambda>s. (s, k, d)) (closest x d k)) [1..<Suc d] of
              t # _ \<Rightarrow> t
            | [] \<Rightarrow> (x, d, d)))"

text \<open>
  \<^verbatim>\<open>String(v)\<close> on an integer-valued double. Up to \<open>2^53\<close> every integer is a double and
  its string is its decimal digits; beyond, the shortest digits that read back as the same
  double are printed, padded with zeros below \<open>10^21\<close> and in exponent notation from there.
\<close>

definition StringOfNonneg :: "int \<Rightarrow> string" where
  "StringOfNonneg x =
     (if x \<le> 2 ^ 53 then digitsOf x
      else (case shortest x of (s, k, n) \<Rightarrow>
        if n \<le> 21 then digitsOf s @ replicate (n - k) (CHR ''0'')
        else if k = 1 then digitsOf s @ ''e+'' @ digitsOf (int n - 1)
        else take 1 (digitsOf s) @ ''.'' @ drop 1 (digitsOf s) @ ''e+'' @ digitsOf (int n - 1)))"

definition String :: "int \<Rightarrow> string" where
  "String v = (if v < 0 then CHR ''-'' # StringOfNonneg (- v) else StringOfNonneg v)"

section \<open>Validator\<close>

text \<open>
  \<^verbatim>\<open>NAME_RE = /^[A-Za-z0-9_.-]{3,64}$/\<close>: one character class, repeated between a
  lower and an upper count, anchored at both ends (without the \<open>m\<close> flag \<open>$\<close> is the
  end of the input). \<open>test\<close> is the matcher for expressions of this shape.
\<close>

datatype class_item = Range char char | Single char

record regex =
  char_class :: "class_item list"
  min_count :: nat
  max_count :: nat

definition inItem :: "char \<Rightarrow> class_item \<Rightarrow> bool" where
  "inItem c item = (case item of
       Range lo hi \<Rightarrow> code lo \<le> code c \<and> code c \<le> code hi
     | Single x \<Rightarrow> c = x)"

definition inClass :: "class_item list \<Rightarrow> char \<Rightarrow> bool" where
  "inClass items c = list_ex (inItem c) items"

fun matchRepeat :: "class_item list \<Rightarrow> nat \<Rightarrow> nat \<Rightarrow> string \<Rightarrow> bool" where
  "matchRepeat items lo hi [] = (lo = 0)"
| "matchRepeat items lo hi (c # cs) =
     (0 < hi \<and> inClass items c \<and> matchRepeat items (lo - 1) (hi - 1) cs)"

definition test :: "regex \<Rightarrow> string \<Rightarrow> bool" where
  "test re s = matchRepeat (char_class re) (min_count re) (max_count re) s"

definition NAME_RE :: regex where
  "NAME_RE = \<lparr> char_class =
                 [Range (CHR ''A'') (CHR ''Z''), Range (CHR ''a'') (CHR ''z''),
                  Range (CHR ''0'') (CHR ''9''), Single (CHR ''_''), Single (CHR ''.''),
                  Single (CHR ''-'')],
               min_count = 3, max_count = 64 \<rparr>"

text \<open>A thrown \<^verbatim>\<open>new Error(message)\<close>; a function that may throw returns \<open>error + 'a\<close>.\<close>

datatype error = Error (message: string)

definition requireNonEmpty :: "string \<Rightarrow> string \<Rightarrow> error + unit" where
  "requireNonEmpty name v =
     (if v = [] \<or> length (trim v) = 0
      then Inl (Error (''Missing required input: '' @ name))
      else Inr ())"

definition validateName :: "string \<Rightarrow> string \<Rightarrow> error + unit" where
  "validateName kind v =
     (if \<not> test NAME_RE v
      then Inl (Error (''Invalid '' @ kind @ '': must match ^[A-Za-z0-9_-.]{3,64}$ (got ''
                        @ [dquote] @ v @ [dquote] @ '')''))
      else Inr ())"

text \<open>\<^verbatim>\<open>Number.isFinite(v) && Number.isInteger(v)\<close>, and the integer then.\<close>

definition parseInteger :: "string \<Rightarrow> string \<Rightarrow> error + int" where
  "parseInteger name raw =
     (case Number raw of
        Finite q \<Rightarrow>
          if of_int \<lfloor>q\<rfloor> = q then Inr \<lfloor>q\<rfloor>
          else Inl (Error (''Invalid '' @ name @ '': expected integer, got ''
                           @ [dquote] @ raw @ [dquote]))
      | _ \<Rightarrow> Inl (Error (''Invalid '' @ name @ '': expected integer, got ''
                         @ [dquote] @ raw @ [dquote])))"

section \<open>Effects\<close>

text \<open>
  What the action does to the world, in order: the HTTP exchanges it starts, the waits
  between them, and the calls to the host platform (\<^verbatim>\<open>core.setSecret\<close>,
  \<^verbatim>\<open>core.setOutput\<close>, \<^verbatim>\<open>core.setFailed\<close>). A computation returns its result, or
  the error it threw, together with the events it produced.
\<close>

datatype http_method = GET | POST

datatype event =
    Fetch string http_method "(string \<times> string) list"
  | Sleep int
  | SetSecret string
  | SetOutput string string
  | SetFailed string

type_synonym 'a io = "(error + 'a) \<times> event list"

definition ret :: "'a \<Rightarrow> 'a io" where
  "ret x = (Inr x, [])"

definition throw :: "error \<Rightarrow> 'a io" where
  "throw e = (Inl e, [])"

definition emit :: "event \<Rightarrow> unit io" where
  "emit ev = (Inr (), [ev])"

definition lift :: "error + 'a \<Rightarrow> 'a io" where
  "lift r = (r, [])"

definition bind :: "'a io \<Rightarrow> ('a \<Rightarrow> 'b io) \<Rightarrow> 'b io" where
  "bind m f = (case m of
       (Inl e, evs) \<Rightarrow> (Inl e, evs)
     | (Inr x, evs) \<Rightarrow> (case f x of (r, evs') \<Rightarrow> (r, evs @ evs')))"

section \<open>Retry executor\<close>

definition MAX_ATTEMPTS :: nat where
  "MAX_ATTEMPTS = 5"

text \<open>
  A response as the action reads it: the status, what \<^verbatim>\<open>headers.get("Retry-After")\<close>
  returns (\<open>None\<close> for \<^verbatim>\<open>null\<close>), and the outcome of \<^verbatim>\<open>res.text()\<close>: the body text, or
  the error with which reading the body rejects. The \<open>n\<close>-th call of \<^verbatim>\<open>fetch\<close> either
  rejects with an error or resolves with a response; which one is the environment's
  choice, given as a function of \<open>n\<close>.
\<close>

record response =
  status :: nat
  retry_after :: "string option"
  body :: "error + string"

datatype fetch_outcome = Rejected error | Responded response

text \<open>How one turn of the \<^verbatim>\<open>while (true)\<close> loop ends: \<^verbatim>\<open>return res\<close>,
  \<^verbatim>\<open>throw err\<close>, or \<^verbatim>\<open>sleep(ms)\<close> and another turn with the backoff doubled.\<close>

datatype step = Return response | Throw error | Continue int

definition catch_clause :: "nat \<Rightarrow> int \<Rightarrow> error \<Rightarrow> step" where
  "catch_clause attempt backoffMs err =
     (if attempt \<ge> MAX_ATTEMPTS then Throw err else Continue backoffMs)"

text \<open>The \<^verbatim>\<open>try\<close> block after \<^verbatim>\<open>fetch\<close> resolved; \<open>Inl\<close> is an error thrown inside it
  (by \<^verbatim>\<open>parseInteger\<close>), which the \<^verbatim>\<open>catch\<close> clause of the same turn receives. Before a
  wait the body is drained inside a \<^verbatim>\<open>try\<close> of its own, whose \<^verbatim>\<open>catch\<close> ignores a failed
  read: the body has no part in the turn.\<close>

definition try_block :: "nat \<Rightarrow> int \<Rightarrow> response \<Rightarrow> error + step" where
  "try_block attempt backoffMs res =
     (if status res = 429 \<and> attempt < MAX_ATTEMPTS then
        (case retry_after res of
           None \<Rightarrow> Inr (Continue backoffMs)
         | Some ra \<Rightarrow>
             if ra = [] then Inr (Continue backoffMs)
             else (case parseInteger ''Retry-After'' ra of
                     Inl err \<Rightarrow> Inl err
                   | Inr v \<Rightarrow> Inr (Continue (max 0 v))))
      else if 500 \<le> status res \<and> status res \<le> 599 \<and> attempt < MAX_ATTEMPTS then
        Inr (Continue backoffMs)
      else Inr (Return res))"

definition iteration :: "nat \<Rightarrow> int \<Rightarrow> fetch_outcome \<Rightarrow> step" where
  "iteration attempt backoffMs outcome =
     (case outcome of
        Rejected err \<Rightarrow> catch_clause attempt backoffMs err
      | Responded res \<Rightarrow>
          (case try_block attempt backoffMs res of
             Inl err \<Rightarrow> catch_clause attempt backoffMs err
           | Inr st \<Rightarrow> st))"

definition nextBackoff :: "int \<Rightarrow> int" where
  "nextBackoff backoffMs = min (backoffMs * 2) 8000"

text \<open>The loop, entered with the number of attempts made so far and the stored backoff.\<close>

function retryLoop ::
  "(nat \<Rightarrow> fetch_outcome) \<Rightarrow> string \<Rightarrow> http_method \<Rightarrow> (string \<times> string) list
     \<Rightarrow> nat \<Rightarrow> int \<Rightarrow> response io" where
  "retryLoop fetch url method headers attempt backoffMs =
     (case iteration (attempt + 1) backoffMs (fetch (attempt + 1)) of
        Return res \<Rightarrow> (Inr res, [Fetch url method headers])
      | Throw err \<Rightarrow> (Inl err, [Fetch url method headers])
      | Continue waitMs \<Rightarrow>
          (case retryLoop fetch url method headers (attempt + 1) (nextBackoff backoffMs) of
             (r, evs) \<Rightarrow> (r, Fetch url method headers # Sleep waitMs # evs)))"
  by pat_completeness auto
termination
proof (relation "measure (\<lambda>(fetch, url, method, headers, attempt, backoffMs). MAX_ATTEMPTS - attempt)")
  show "wf (measure (\<lambda>(fetch, url, method, headers, attempt, backoffMs). MAX_ATTEMPTS - attempt))"
    by simp
next
  fix fetch :: "nat \<Rightarrow> fetch_outcome" and url :: string and m :: http_method
    and headers :: "(string \<times> string) list" and attempt :: nat and backoffMs waitMs :: int
  assume "iteration (attempt + 1) backoffMs (fetch (attempt + 1)) = Continue waitMs"
  then have "attempt + 1 < MAX_ATTEMPTS"
    by (auto simp: iteration_def catch_clause_def try_block_def
             split: fetch_outcome.splits sum.splits if_splits option.splits)
  then show "((fetch, url, m, headers, attempt + 1, nextBackoff backoffMs),
              (fetch, url, m, headers, attempt, backoffMs))
             \<in> measure (\<lambda>(fetch, url, method, headers, attempt, backoffMs). MAX_ATTEMPTS - attempt)"
    by simp
qed

declare retryLoop.simps [simp del]

definition requestWithRetries ::
  "(nat \<Rightarrow> fetch_outcome) \<Rightarrow> string \<Rightarrow> http_method \<Rightarrow> (string \<times> string) list \<Rightarrow> response io" where
  "requestWithRetries fetch url method headers = retryLoop fetch url method headers 0 500"

section \<open>Request builder\<close>

definition BASE_URL :: string where
  "BASE_URL = ''https://abacus.jasoncameron.dev''"

definition normalizeBaseUrl :: "string \<Rightarrow> string" where
  "normalizeBaseUrl url = (if url \<noteq> [] \<and> last url = CHR ''/'' then butlast url else url)"

text \<open>The cast \<^verbatim>\<open>operationRaw as Operation\<close> checks nothing: an operation is any string.\<close>

definition isAdminOp :: "string \<Rightarrow> bool" where
  "isAdminOp op = (op = ''set'' \<or> op = ''update'' \<or> op = ''reset'' \<or> op = ''delete'')"

definition methodFor :: "string \<Rightarrow> http_method" where
  "methodFor op = (if isAdminOp op then POST else GET)"

subsection \<open>Percent-encoding\<close>

definition isAlnum :: "char \<Rightarrow> bool" where
  "isAlnum c = (let n = code c in
     (48 \<le> n \<and> n \<le> 57) \<or> (65 \<le> n \<and> n \<le> 90) \<or> (97 \<le> n \<and> n \<le> 122))"

definition hexDigit :: "int \<Rightarrow> char" where
  "hexDigit d = (if d < 10 then char_of (48 + d) else char_of (55 + d))"

definition percentByte :: "int \<Rightarrow> string" where
  "percentByte b = [CHR ''%'', hexDigit (b div 16), hexDigit (b mod 16)]"

text \<open>The UTF-8 bytes of a code point below 256.\<close>

definition utf8 :: "char \<Rightarrow> int list" where
  "utf8 c = (let n = code c in if n < 128 then [n] else [192 + n div 64, 128 + n mod 64])"

definition percentEncode :: "(char \<Rightarrow> bool) \<Rightarrow> char \<Rightarrow> string" where
  "percentEncode encodeSet c = (if encodeSet c then concat (map percentByte (utf8 c)) else [c])"

text \<open>\<^verbatim>\<open>encodeURIComponent\<close> keeps letters, digits and \<^verbatim>\<open>- _ . ! ~ * ' ( )\<close>.\<close>

definition uriUnreserved :: "char \<Rightarrow> bool" where
  "uriUnreserved c = (isAlnum c \<or> c \<in> set ''-_.!~*()'' \<or> c = CHR 0x27)"

definition encodeURIComponent :: "string \<Rightarrow> string" where
  "encodeURIComponent s = concat (map (percentEncode (\<lambda>c. \<not> uriUnreserved c)) s)"

text \<open>The sets of characters that the URL parser percent-encodes in a fragment, a query
  and a path.\<close>

definition c0ControlSet :: "char \<Rightarrow> bool" where
  "c0ControlSet c = (code c < 32 \<or> 126 < code c)"

definition fragmentSet :: "char \<Rightarrow> bool" where
  "fragmentSet c = (c0ControlSet c \<or> c \<in> {CHR '' '', dquote, CHR ''<'', CHR ''>'', CHR 0x60})"

definition querySet :: "char \<Rightarrow> bool" where
  "querySet c = (c0ControlSet c \<or> c \<in> {CHR '' '', dquote, CHR ''#'', CHR ''<'', CHR ''>''})"

definition specialQuerySet :: "char \<Rightarrow> bool" where
  "specialQuerySet c = (querySet c \<or> c = CHR 0x27)"

definition pathSet :: "char \<Rightarrow> bool" where
  "pathSet c = (querySet c \<or> c \<in> {CHR ''?'', CHR 0x60, CHR ''{'', CHR ''}''})"

subsection \<open>The URL object\<close>

text \<open>
  \<^verbatim>\<open>new URL(href)\<close> for an href on the service origin, which is all \<^verbatim>\<open>buildUrl\<close>
  constructs: the scheme and host are those of \<open>BASE_URL\<close>, and what follows them goes
  through the path, query and fragment states of the URL standard's parser for a special
  scheme. The path is kept as its list of segments; an absent query or fragment is
  \<open>None\<close>.
\<close>

record url =
  origin :: string
  path :: "string list"
  query :: "string option"
  fragment :: "string option"

definition lower :: "char \<Rightarrow> char" where
  "lower c = (if 65 \<le> code c \<and> code c \<le> 90 then char_of (code c + 32) else c)"

definition singleDot :: "string \<Rightarrow> bool" where
  "singleDot seg = (map lower seg \<in> {''.'', ''%2e''})"

definition doubleDot :: "string \<Rightarrow> bool" where
  "doubleDot seg = (map lower seg \<in> {''..'', ''.%2e'', ''%2e.'', ''%2e%2e''})"

text \<open>What the path state does with the segment in its buffer when it meets a slash
  (\<open>atEnd\<close> false) or the end of the path (\<open>atEnd\<close> true).\<close>

definition endSegment :: "string \<Rightarrow> string list \<Rightarrow> bool \<Rightarrow> string list" where
  "endSegment buffer segs atEnd =
     (if doubleDot buffer then (if atEnd then butlast segs @ [[]] else butlast segs)
      else if singleDot buffer then (if atEnd then segs @ [[]] else segs)
      else segs @ [buffer])"

definition fragmentState :: "string \<Rightarrow> string" where
  "fragmentState s = concat (map (percentEncode fragmentSet) s)"

definition queryState :: "string \<Rightarrow> string \<times> string option" where
  "queryState s =
     (let q = takeWhile (\<lambda>c. c \<noteq> CHR ''#'') s;
          r = dropWhile (\<lambda>c. c \<noteq> CHR ''#'') s
      in (concat (map (percentEncode specialQuerySet) q),
          case r of [] \<Rightarrow> None | _ # f \<Rightarrow> Some (fragmentState f)))"

fun pathState :: "string \<Rightarrow> string list \<Rightarrow> string \<Rightarrow> string list \<times> string option \<times> string option" where
  "pathState buffer segs [] = (endSegment buffer segs True, None, None)"
| "pathState buffer segs (c # cs) =
     (if c = CHR ''/'' \<or> c = CHR 0x5C then pathState [] (endSegment buffer segs False) cs
      else if c = CHR ''?'' then
        (case queryState cs of (q, f) \<Rightarrow> (endSegment buffer segs True, Some q, f))
      else if c = CHR ''#'' then (endSegment buffer segs True, None, Some (fragmentState cs))
      else pathState (buffer @ percentEncode pathSet c) segs cs)"

definition pathStartState :: "string \<Rightarrow> string list \<times> string option \<times> string option" where
  "pathStartState s = (case s of
       [] \<Rightarrow> pathState [] [] []
     | c # cs \<Rightarrow> if c = CHR ''/'' \<or> c = CHR 0x5C then pathState [] [] cs else pathState [] [] s)"

text \<open>Before parsing, leading and trailing C0 controls and spaces are dropped, then every
  tab and newline.\<close>

definition stripInput :: "string \<Rightarrow> string" where
  "stripInput s =
     filter (\<lambda>c. code c \<notin> {9, 10, 13})
       (rev (dropWhile (\<lambda>c. code c \<le> 32) (rev (dropWhile (\<lambda>c. code c \<le> 32) s))))"

definition URL :: "string \<Rightarrow> url" where
  "URL href =
     (let s = stripInput href in
      case pathStartState (drop (length BASE_URL) s) of
        (p, q, f) \<Rightarrow> \<lparr> origin = take (length BASE_URL) s, path = p, query = q, fragment = f \<rparr>)"

definition toString :: "url \<Rightarrow> string" where
  "toString u =
     origin u @ concat (map (\<lambda>seg. ''/'' @ seg) (path u))
       @ (case query u of None \<Rightarrow> [] | Some q \<Rightarrow> ''?'' @ q)
       @ (case fragment u of None \<Rightarrow> [] | Some f \<Rightarrow> ''#'' @ f)"

text \<open>The \<^verbatim>\<open>application/x-www-form-urlencoded\<close> serializer.\<close>

definition formEncode :: "string \<Rightarrow> string" where
  "formEncode s = concat (map (\<lambda>c.
       if c = CHR '' '' then ''+''
       else if isAlnum c \<or> c \<in> set ''*-._'' then [c]
       else concat (map percentByte (utf8 c))) s)"

fun joinWith :: "string \<Rightarrow> string list \<Rightarrow> string" where
  "joinWith sep [] = []"
| "joinWith sep [x] = x"
| "joinWith sep (x # y # ys) = x @ sep @ joinWith sep (y # ys)"

definition formSerialize :: "(string \<times> string) list \<Rightarrow> string" where
  "formSerialize params = joinWith ''&'' (map (\<lambda>(n, v). formEncode n @ ''='' @ formEncode v) params)"

text \<open>\<^verbatim>\<open>URLSearchParams.set\<close> on a list of pairs: the first pair of that name takes the
  value and the others of that name go; without one, the pair is appended.\<close>

fun setParam :: "string \<Rightarrow> string \<Rightarrow> (string \<times> string) list \<Rightarrow> (string \<times> string) list" where
  "setParam name v [] = [(name, v)]"
| "setParam name v ((n, x) # ps) =
     (if n = name then (name, v) # filter (\<lambda>p. fst p \<noteq> name) ps
      else (n, x) # setParam name v ps)"

text \<open>
  \<^verbatim>\<open>url.searchParams.set(name, value)\<close>: the pairs are those parsed from the URL's query
  (none when it has no query), and the URL's query becomes their serialization. The
  parser of an existing query is the platform's, taken as the parameter \<open>formParse\<close>.
\<close>

definition searchParams_set ::
  "(string \<Rightarrow> (string \<times> string) list) \<Rightarrow> url \<Rightarrow> string \<Rightarrow> string \<Rightarrow> url" where
  "searchParams_set formParse u name v =
     (let params = (case query u of None \<Rightarrow> [] | Some q \<Rightarrow> formParse q);
          serialized = formSerialize (setParam name v params)
      in u \<lparr> query := (if serialized = [] then None else Some serialized) \<rparr>)"

definition buildUrl ::
  "(string \<Rightarrow> (string \<times> string) list) \<Rightarrow> string \<Rightarrow> string \<Rightarrow> string \<Rightarrow> int option \<Rightarrow> int option
     \<Rightarrow> string" where
  "buildUrl formParse op namespace key initializer v =
     (let base = normalizeBaseUrl BASE_URL;
          pathname = ''/'' @ op @ ''/'' @ encodeURIComponent namespace @ ''/'' @ encodeURIComponent key;
          u0 = URL (base @ pathname);
          u1 = (case initializer of
                  Some i \<Rightarrow> if op = ''create'' then searchParams_set formParse u0 ''initializer'' (String i)
                            else u0
                | None \<Rightarrow> u0);
          u2 = (case v of
                  Some x \<Rightarrow> if op = ''set'' \<or> op = ''update''
                            then searchParams_set formParse u1 ''value'' (String x) else u1
                | None \<Rightarrow> u1)
      in toString u2)"

section \<open>Response interpreter\<close>

text \<open>
  A decoded JSON value. The action does nothing with a number of the payload but convert
  it with \<^verbatim>\<open>String\<close>, so a number is kept as the string that conversion yields. An
  object is the list of its properties, each name once. \<^verbatim>\<open>JSON.parse\<close> is the platform's and is taken as
  a parameter: \<open>None\<close> when it throws.
\<close>

datatype json =
    JNull
  | JBool bool
  | JNumber string
  | JString string
  | JArray "json list"
  | JObject "(string \<times> json) list"

text \<open>\<^verbatim>\<open>await res.text()\<close> stands outside the \<^verbatim>\<open>try\<close> of \<^verbatim>\<open>readJsonSafely\<close>: when reading
  the body rejects, so does the function.\<close>

definition readJsonSafely :: "(string \<Rightarrow> json option) \<Rightarrow> response \<Rightarrow> error + json" where
  "readJsonSafely JSON_parse res =
     (case body res of
        Inl err \<Rightarrow> Inl err
      | Inr text \<Rightarrow>
          if text = [] then Inr (JObject [])
          else (case JSON_parse text of
                  Some v \<Rightarrow> Inr v
                | None \<Rightarrow> Inr (JObject [(''error'', JString text)])))"

text \<open>\<^verbatim>\<open>payload.name\<close>: a TypeError on \<^verbatim>\<open>null\<close>, \<^verbatim>\<open>undefined\<close> (\<open>None\<close>) for a property
  the value does not have.\<close>

definition getProperty :: "json \<Rightarrow> string \<Rightarrow> error + json option" where
  "getProperty payload name = (case payload of
       JNull \<Rightarrow> Inl (Error (''Cannot read properties of null (reading '' @ [CHR 0x27] @ name
                               @ [CHR 0x27] @ '')''))
     | JObject props \<Rightarrow> Inr (map_of props name)
     | _ \<Rightarrow> Inr None)"

text \<open>\<^verbatim>\<open>payload?.name\<close>.\<close>

definition getPropertyOpt :: "json \<Rightarrow> string \<Rightarrow> json option" where
  "getPropertyOpt payload name = (case payload of JObject props \<Rightarrow> map_of props name | _ \<Rightarrow> None)"

text \<open>The results of a list of conversions, up to the first that throws.\<close>

fun firstError :: "(error + 'a) list \<Rightarrow> error + 'a list" where
  "firstError [] = Inr []"
| "firstError (Inl e # rs) = Inl e"
| "firstError (Inr x # rs) = (case firstError rs of Inl e \<Rightarrow> Inl e | Inr xs \<Rightarrow> Inr (x # xs))"

text \<open>
  \<^verbatim>\<open>String(value)\<close> on a decoded value. An array joins the strings of its elements with
  commas, a \<^verbatim>\<open>null\<close> element giving the empty string. An object is converted by the
  \<^verbatim>\<open>toString\<close> it inherits, to \<^verbatim>\<open>[object Object]\<close>; a property \<open>toString\<close> of its own
  hides that method and is no function, and the conversion throws a TypeError.
\<close>

fun StringOf :: "json \<Rightarrow> error + string" where
  "StringOf JNull = Inr ''null''"
| "StringOf (JBool b) = Inr (if b then ''true'' else ''false'')"
| "StringOf (JNumber s) = Inr s"
| "StringOf (JString s) = Inr s"
| "StringOf (JArray xs) =
     (case firstError (map (\<lambda>x. if x = JNull then Inr [] else StringOf x) xs) of
        Inl e \<Rightarrow> Inl e
      | Inr parts \<Rightarrow> Inr (joinWith '','' parts))"
| "StringOf (JObject props) =
     (if map_of props ''toString'' = None then Inr ''[object Object]''
      else Inl (Error ''Cannot convert object to primitive value''))"

definition setOutputIfPresent :: "string \<Rightarrow> json option \<Rightarrow> unit io" where
  "setOutputIfPresent name v = (case v of
       None \<Rightarrow> ret ()
     | Some JNull \<Rightarrow> ret ()
     | Some x \<Rightarrow> bind (lift (StringOf x)) (\<lambda>s. emit (SetOutput name s)))"

text \<open>\<^verbatim>\<open>setOutputIfPresent(name, payload.name)\<close>.\<close>

definition outputProperty :: "json \<Rightarrow> string \<Rightarrow> unit io" where
  "outputProperty payload name = bind (lift (getProperty payload name)) (setOutputIfPresent name)"

definition ok :: "response \<Rightarrow> bool" where
  "ok res = (200 \<le> status res \<and> status res \<le> 299)"

section \<open>The action\<close>

text \<open>
  \<^verbatim>\<open>run\<close> in three parts. \<open>prepareRequest\<close> is its lines up to the call of
  \<^verbatim>\<open>requestWithRetries\<close>: it reads the inputs (\<open>getInput\<close> is \<^verbatim>\<open>core.getInput\<close>, the empty
  string for an input that is not given), validates them and builds the URL, the method
  and the headers. \<open>interpretResponse\<close> is its lines after the call.
\<close>

record platform =
  JSON_parse :: "string \<Rightarrow> json option"
  formParse :: "string \<Rightarrow> (string \<times> string) list"

definition operationOf :: "(string \<Rightarrow> string) \<Rightarrow> string" where
  "operationOf getInput = (if getInput ''operation'' = [] then ''hit'' else getInput ''operation'')"

definition prepareRequest ::
  "platform \<Rightarrow> (string \<Rightarrow> string) \<Rightarrow> (string \<times> http_method \<times> (string \<times> string) list) io" where
  "prepareRequest pf getInput =
     (let operation = operationOf getInput;
          namespace = getInput ''namespace'';
          key = getInput ''key''
      in
      bind (lift (requireNonEmpty ''namespace'' namespace)) (\<lambda>_.
      bind (lift (requireNonEmpty ''key'' key)) (\<lambda>_.
      bind (lift (validateName ''namespace'' namespace)) (\<lambda>_.
      bind (lift (validateName ''key'' key)) (\<lambda>_.
      (let initializerRaw = (if getInput ''initializer'' = [] then ''0'' else getInput ''initializer'');
           valueRaw = getInput ''value'';
           adminKey = getInput ''admin_key''
       in
       bind (if isAdminOp operation
             then bind (lift (requireNonEmpty ''admin_key'' adminKey)) (\<lambda>_. emit (SetSecret adminKey))
             else ret ()) (\<lambda>_.
       bind (if (operation = ''set'' \<or> operation = ''update'') \<and> (valueRaw = [] \<or> trim valueRaw = [])
             then throw (Error (''Missing required input: value (required for operation=''
                                 @ operation @ '')''))
             else ret ()) (\<lambda>_.
       bind (if operation = ''create''
             then bind (lift (parseInteger ''initializer'' initializerRaw)) (\<lambda>i. ret (Some i))
             else ret None) (\<lambda>initializer.
       bind (if operation = ''set'' \<or> operation = ''update''
             then bind (lift (parseInteger ''value'' valueRaw)) (\<lambda>x. ret (Some x))
             else ret None) (\<lambda>v.
       (let u = buildUrl (formParse pf) operation namespace key initializer v;
            method = methodFor operation;
            headers = [(''Accept'', ''application/json'')]
                      @ (if isAdminOp operation then [(''Authorization'', ''Bearer '' @ adminKey)] else [])
        in ret (u, method, headers))))))))))))"

definition interpretResponse :: "platform \<Rightarrow> string \<Rightarrow> response \<Rightarrow> unit io" where
  "interpretResponse pf operation res =
     bind (lift (readJsonSafely (JSON_parse pf) res)) (\<lambda>payload.
      bind (if \<not> ok res
            then throw (Error ((case getPropertyOpt payload ''error'' of
                                  Some (JString e) \<Rightarrow> e
                                | _ \<Rightarrow> ''Request failed with status '' @ String (int (status res)))
                               @ '' (operation='' @ operation @ '')''))
            else ret ()) (\<lambda>_.
      bind (outputProperty payload ''value'') (\<lambda>_.
      bind (if operation = ''create''
            then bind (outputProperty payload ''namespace'') (\<lambda>_.
                 bind (outputProperty payload ''key'') (\<lambda>_.
                 bind (outputProperty payload ''admin_key'') (\<lambda>_.
                 (case getPropertyOpt payload ''admin_key'' of
                    Some (JString k) \<Rightarrow> emit (SetSecret k)
                  | _ \<Rightarrow> ret ()))))
            else ret ()) (\<lambda>_.
      bind (if operation = ''info''
            then bind (outputProperty payload ''exists'') (\<lambda>_.
                 bind (outputProperty payload ''expires_in'') (\<lambda>_.
                 bind (outputProperty payload ''expires_str'') (\<lambda>_.
                 bind (outputProperty payload ''full_key'') (\<lambda>_.
                 outputProperty payload ''is_genuine''))))
            else ret ()) (\<lambda>_.
      (if operation = ''delete''
       then bind (outputProperty payload ''status'') (\<lambda>_. outputProperty payload ''message'')
       else ret ()))))))"

definition run :: "platform \<Rightarrow> (string \<Rightarrow> string) \<Rightarrow> (nat \<Rightarrow> fetch_outcome) \<Rightarrow> unit io" where
  "run pf getInput fetch =
     bind (prepareRequest pf getInput) (\<lambda>(u, method, headers).
     bind (requestWithRetries fetch u method headers) (\<lambda>res.
     interpretResponse pf (operationOf getInput) res))"

text \<open>\<^verbatim>\<open>run().catch(...)\<close>: what the process does, from its start to its end.\<close>

definition main :: "platform \<Rightarrow> (string \<Rightarrow> string) \<Rightarrow> (nat \<Rightarrow> fetch_outcome) \<Rightarrow> event list" where
  "main pf getInput fetch = (case run pf getInput fetch of
       (Inl err, evs) \<Rightarrow> evs @ [SetFailed (message err)]
     | (Inr _, evs) \<Rightarrow> evs)"

section \<open>Observations on a run\<close>

fun waits :: "event list \<Rightarrow> int list" where
  "waits [] = []"
| "waits (Sleep ms # evs) = ms # waits evs"
| "waits (_ # evs) = waits evs"

fun attempts :: "event list \<Rightarrow> nat" where
  "attempts [] = 0"
| "attempts (Fetch u method headers # evs) = Suc (attempts evs)"
| "attempts (_ # evs) = attempts evs"

text \<open>A qualifying failure: a rejected exchange, a 429 or a 5xx.\<close>

definition qualifying :: "fetch_outcome \<Rightarrow> bool" where
  "qualifying outcome = (case outcome of
       Rejected err \<Rightarrow> True
     | Responded res \<Rightarrow> status res = 429 \<or> (500 \<le> status res \<and> status res \<le> 599))"

section \<open>The specification's words\<close>

text \<open>An identifier as the specification describes it: 3 to 64 characters drawn from
  letters, digits, underscore, hyphen and period.\<close>

definition identifierChar :: "char \<Rightarrow> bool" where
  "identifierChar c =
     (c \<in> set ''ABCDEFGHIJKLMNOPQRSTUVWXYZabcdefghijklmnopqrstuvwxyz0123456789_-.'')"

definition isIdentifier :: "string \<Rightarrow> bool" where
  "isIdentifier s = (3 \<le> length s \<and> length s \<le> 64 \<and> list_all identifierChar s)"

text \<open>An input that is empty or blank.\<close>

definition blank :: "string \<Rightarrow> bool" where
  "blank s = (s = [] \<or> trim s = [])"

text \<open>The invalid inputs: an empty, blank or pattern-violating namespace or key, a missing
  value for \<open>set\<close> or \<open>update\<close>, a missing admin key for an admin operation.\<close>

definition invalidInput :: "(string \<Rightarrow> string) \<Rightarrow> bool" where
  "invalidInput getInput =
     (blank (getInput ''namespace'') \<or> blank (getInput ''key'')
      \<or> \<not> isIdentifier (getInput ''namespace'') \<or> \<not> isIdentifier (getInput ''key'')
      \<or> ((operationOf getInput = ''set'' \<or> operationOf getInput = ''update'')
           \<and> blank (getInput ''value''))
      \<or> (isAdminOp (operationOf getInput) \<and> blank (getInput ''admin_key'')))"

text \<open>A decimal integer string: the digits, after a minus sign for a negative integer.\<close>

definition decimal :: "int \<Rightarrow> string" where
  "decimal v = (if v < 0 then CHR ''-'' # digitsOf (- v) else digitsOf v)"

text \<open>
  A plain path segment: its characters are printable ASCII other than the space and
  \<^verbatim>\<open>" # / < > ? \ ` { }\<close>, and it is not a dot segment (\<open>.\<close>, \<open>..\<close>, or one of these with a
  dot written \<open>%2e\<close>).
\<close>

definition plainChar :: "char \<Rightarrow> bool" where
  "plainChar c =
     (32 < code c \<and> code c < 127
      \<and> c \<notin> {dquote, CHR ''#'', CHR ''/'', CHR ''<'', CHR ''>'', CHR ''?'', CHR 0x5C, CHR 0x60,
               CHR ''{'', CHR ''}''})"

definition plainSegment :: "string \<Rightarrow> bool" where
  "plainSegment s = (list_all plainChar s \<and> \<not> singleDot s \<and> \<not> doubleDot s)"

text \<open>The query string an operation's request carries, from the inputs.\<close>

definition expectedQuery :: "(string \<Rightarrow> string) \<Rightarrow> string" where
  "expectedQuery getInput =
     (if operationOf getInput = ''create'' then
        (case parseInteger ''initializer''
                (if getInput ''initializer'' = [] then ''0'' else getInput ''initializer'') of
           Inr i \<Rightarrow> ''?initializer='' @ formEncode (String i)
         | Inl err \<Rightarrow> [])
      else if operationOf getInput = ''set'' \<or> operationOf getInput = ''update'' then
        (case parseInteger ''value'' (getInput ''value'') of
           Inr x \<Rightarrow> ''?value='' @ formEncode (String x)
         | Inl err \<Rightarrow> [])
      else [])"

text \<open>The wait that the specification's rule for a 429 prescribes: the header's value when
  the header is present and parses as a non-negative integer, else the stored backoff.\<close>

definition claimedWait :: "int \<Rightarrow> response \<Rightarrow> int" where
  "claimedWait backoffMs res = (case retry_after res of
       None \<Rightarrow> backoffMs
     | Some ra \<Rightarrow>
         (case parseInteger ''Retry-After'' ra of
            Inl err \<Rightarrow> backoffMs
          | Inr v \<Rightarrow> if ra \<noteq> [] \<and> 0 \<le> v then v else backoffMs))"

section \<open>The retry loop, turn by turn\<close>

lemma iteration_Continue_less:
  "iteration attempt backoffMs outcome = Continue waitMs \<Longrightarrow> attempt < MAX_ATTEMPTS"
  by (auto simp: iteration_def catch_clause_def try_block_def
           split: fetch_outcome.splits sum.splits if_splits option.splits)

lemma retryLoop_Continue:
  "iteration (attempt + 1) backoffMs (fetch (attempt + 1)) = Continue w \<Longrightarrow>
   retryLoop fetch u m headers attempt backoffMs =
     (fst (retryLoop fetch u m headers (attempt + 1) (nextBackoff backoffMs)),
      Fetch u m headers # Sleep w
        # snd (retryLoop fetch u m headers (attempt + 1) (nextBackoff backoffMs)))"
  by (simp add: retryLoop.simps [of fetch u m headers attempt] split: prod.splits)

lemma retryLoop_Return:
  "iteration (attempt + 1) backoffMs (fetch (attempt + 1)) = Return res \<Longrightarrow>
   retryLoop fetch u m headers attempt backoffMs = (Inr res, [Fetch u m headers])"
  by (simp add: retryLoop.simps [of fetch u m headers attempt])

lemma retryLoop_Throw:
  "iteration (attempt + 1) backoffMs (fetch (attempt + 1)) = Throw err \<Longrightarrow>
   retryLoop fetch u m headers attempt backoffMs = (Inl err, [Fetch u m headers])"
  by (simp add: retryLoop.simps [of fetch u m headers attempt])

lemma attempts_retryLoop:
  "attempts (snd (retryLoop fetch u m headers attempt backoffMs))
     \<le> max 1 (MAX_ATTEMPTS - attempt)"
proof (induction fetch u m headers attempt backoffMs rule: retryLoop.induct)
  case (1 fetch u m headers attempt backoffMs)
  show ?case
  proof (cases "iteration (attempt + 1) backoffMs (fetch (attempt + 1))")
    case (Return res)
    then show ?thesis by (simp add: retryLoop_Return)
  next
    case (Throw err)
    then show ?thesis by (simp add: retryLoop_Throw)
  next
    case (Continue waitMs)
    from Continue have lt: "attempt + 1 < MAX_ATTEMPTS" by (rule iteration_Continue_less)
    from "1.IH" [OF Continue]
    have "attempts (snd (retryLoop fetch u m headers (attempt + 1) (nextBackoff backoffMs)))
            \<le> max 1 (MAX_ATTEMPTS - (attempt + 1))" .
    with lt show ?thesis
      by (simp add: retryLoop_Continue [of attempt backoffMs fetch waitMs u m headers, OF Continue])
  qed
qed

lemma qualifying_Continue:
  "qualifying outcome \<Longrightarrow> attempt < MAX_ATTEMPTS \<Longrightarrow>
   \<exists>w. iteration attempt backoffMs outcome = Continue w"
  by (auto simp: qualifying_def iteration_def catch_clause_def try_block_def
           split: fetch_outcome.splits sum.splits if_splits option.splits)

lemma iteration_last:
  "iteration MAX_ATTEMPTS backoffMs outcome =
     (case outcome of Rejected err \<Rightarrow> Throw err | Responded res \<Rightarrow> Return res)"
  by (auto simp: iteration_def catch_clause_def try_block_def
           split: fetch_outcome.splits sum.splits if_splits option.splits)

lemma retryLoop_last:
  "attempt + 1 = MAX_ATTEMPTS \<Longrightarrow>
   retryLoop fetch u m headers attempt backoffMs =
     ((case fetch (attempt + 1) of Rejected err \<Rightarrow> Inl err | Responded res \<Rightarrow> Inr res),
      [Fetch u m headers])"
  using iteration_last [of backoffMs "fetch (attempt + 1)"]
  by (simp add: retryLoop.simps [of fetch u m headers attempt] split: fetch_outcome.splits)

lemma exhausted:
  assumes "\<forall>n \<in> {1..MAX_ATTEMPTS}. qualifying (fetch n)"
  shows "attempts (snd (requestWithRetries fetch u m headers)) = MAX_ATTEMPTS
     \<and> fst (requestWithRetries fetch u m headers) =
         (case fetch MAX_ATTEMPTS of Rejected err \<Rightarrow> Inl err | Responded res \<Rightarrow> Inr res)"
proof -
  have q: "\<exists>w. iteration (n + 1) b (fetch (n + 1)) = Continue w" if "n < 4" for n b
    using that assms qualifying_Continue [of "fetch (n + 1)" "n + 1" b]
    by (simp add: MAX_ATTEMPTS_def)
  define b1 where "b1 = nextBackoff 500"
  define b2 where "b2 = nextBackoff b1"
  define b3 where "b3 = nextBackoff b2"
  define b4 where "b4 = nextBackoff b3"
  obtain w1 where w1: "iteration (0 + 1) 500 (fetch (0 + 1)) = Continue w1" using q [of 0] by auto
  obtain w2 where w2: "iteration (1 + 1) b1 (fetch (1 + 1)) = Continue w2" using q [of 1] by auto
  obtain w3 where w3: "iteration (2 + 1) b2 (fetch (2 + 1)) = Continue w3" using q [of 2] by auto
  obtain w4 where w4: "iteration (3 + 1) b3 (fetch (3 + 1)) = Continue w4" using q [of 3] by auto
  let ?R = "case fetch 5 of Rejected err \<Rightarrow> Inl err | Responded res \<Rightarrow> Inr res"
  let ?F = "Fetch u m headers"
  have r4: "retryLoop fetch u m headers 4 b4 = (?R, [?F])"
    using retryLoop_last [of 4 fetch u m headers b4] by (simp add: MAX_ATTEMPTS_def)
  have r3: "retryLoop fetch u m headers 3 b3 = (?R, [?F, Sleep w4, ?F])"
    using retryLoop_Continue [of 3 b3 fetch w4 u m headers, OF w4] r4 by (simp add: b4_def)
  have r2: "retryLoop fetch u m headers 2 b2 = (?R, [?F, Sleep w3, ?F, Sleep w4, ?F])"
    using retryLoop_Continue [of 2 b2 fetch w3 u m headers, OF w3] r3 by (simp add: b3_def)
  have r1: "retryLoop fetch u m headers 1 b1 =
      (?R, [?F, Sleep w2, ?F, Sleep w3, ?F, Sleep w4, ?F])"
    using retryLoop_Continue [of 1 b1 fetch w2 u m headers, OF w2] r2
    by (simp add: b2_def one_add_one del: One_nat_def)
  have r0: "retryLoop fetch u m headers 0 500 =
      (?R, [?F, Sleep w1, ?F, Sleep w2, ?F, Sleep w3, ?F, Sleep w4, ?F])"
    using retryLoop_Continue [of 0 500 fetch w1 u m headers, OF w1] r1
    by (simp add: b1_def del: One_nat_def)
  show ?thesis
    unfolding requestWithRetries_def r0 by (simp add: MAX_ATTEMPTS_def)
qed

lemma min_cap: "min (min x 8000 * 2 ^ k) 8000 = min (x * 2 ^ k) (8000::int)"
proof (cases "x \<le> 8000")
  case True
  then show ?thesis by simp
next
  case False
  have one: "(1::int) \<le> 2 ^ k" by simp
  have "x * 1 \<le> x * 2 ^ k" using False by (intro mult_left_mono [OF one]) simp
  then have "x \<le> x * 2 ^ k" by (simp only: mult_1_right)
  then have a: "8000 \<le> x * 2 ^ k" using False by linarith
  have "(8000::int) * 1 \<le> 8000 * 2 ^ k" by (intro mult_left_mono [OF one]) simp
  then have b: "8000 \<le> (8000::int) * 2 ^ k" by (simp only: mult_1_right)
  have "min x 8000 = 8000" using False by simp
  then show ?thesis using a b by (simp only: min_absorb2)
qed

lemma nextBackoff_pow:
  "b \<le> 8000 \<Longrightarrow> (nextBackoff ^^ k) b = min (b * 2 ^ k) 8000"
proof (induction k arbitrary: b)
  case 0
  then show ?case by simp
next
  case (Suc k)
  have "(nextBackoff ^^ Suc k) b = (nextBackoff ^^ k) (nextBackoff b)"
    by (simp add: funpow_swap1)
  also have "\<dots> = min (nextBackoff b * 2 ^ k) 8000"
    by (rule Suc.IH) (simp add: nextBackoff_def)
  also have "\<dots> = min (b * 2 ^ Suc k) 8000"
    using min_cap [of "b * 2" k] by (simp add: nextBackoff_def mult.assoc)
  finally show ?case .
qed

lemma iteration_no_header:
  assumes "\<And>res. outcome = Responded res \<Longrightarrow> retry_after res = None"
    and "iteration attempt backoffMs outcome = Continue w"
  shows "w = backoffMs"
  using assms
  by (auto simp: iteration_def catch_clause_def try_block_def
           split: fetch_outcome.splits sum.splits if_splits option.splits)

lemma waits_retryLoop:
  assumes "\<forall>n res. fetch n = Responded res \<longrightarrow> retry_after res = None"
    and "backoffMs \<le> 8000"
  shows "waits (snd (retryLoop fetch u m headers attempt backoffMs)) =
     map (\<lambda>k. min (backoffMs * 2 ^ k) 8000)
       [0..<length (waits (snd (retryLoop fetch u m headers attempt backoffMs)))]"
  using assms
proof (induction fetch u m headers attempt backoffMs rule: retryLoop.induct)
  case (1 fetch u m headers attempt backoffMs)
  show ?case
  proof (cases "iteration (attempt + 1) backoffMs (fetch (attempt + 1))")
    case (Return res)
    then show ?thesis by (simp add: retryLoop_Return)
  next
    case (Throw err)
    then show ?thesis by (simp add: retryLoop_Throw)
  next
    case (Continue w)
    let ?rest = "waits (snd (retryLoop fetch u m headers (attempt + 1) (nextBackoff backoffMs)))"
    have w: "w = backoffMs"
      using iteration_no_header [of "fetch (attempt + 1)" "attempt + 1" backoffMs w]
        Continue "1.prems"(1) by blast
    have ih: "?rest = map (\<lambda>k. min (nextBackoff backoffMs * 2 ^ k) 8000) [0..<length ?rest]"
      using "1.IH" [OF Continue "1.prems"(1)] by (simp add: nextBackoff_def)
    have shift: "map (\<lambda>k. min (nextBackoff backoffMs * 2 ^ k) 8000) [0..<n]
       = map (\<lambda>k. min (backoffMs * 2 ^ k) 8000) (map Suc [0..<n])" for n
      using min_cap [of "backoffMs * 2"] by (simp add: nextBackoff_def mult.assoc)
    have "waits (snd (retryLoop fetch u m headers attempt backoffMs)) = backoffMs # ?rest"
      using retryLoop_Continue [of attempt backoffMs fetch w u m headers, OF Continue] w
      by simp
    moreover have "map (\<lambda>k. min (backoffMs * 2 ^ k) 8000) [0..<Suc (length ?rest)]
       = backoffMs # map (\<lambda>k. min (backoffMs * 2 ^ k) 8000) (map Suc [0..<length ?rest])"
      using "1.prems"(2) by (simp only: upt_conv_Cons [of 0] map_Suc_upt [symmetric]) simp
    ultimately show ?thesis using ih shift [of "length ?rest"] by simp
  qed
qed

section \<open>The pattern and the sequencing of effects\<close>

lemma inClass_NAME_RE_all: "\<forall>c. inClass (char_class NAME_RE) c = identifierChar c"
  by code_simp

lemma inClass_NAME_RE: "inClass (char_class NAME_RE) c = identifierChar c"
  using inClass_NAME_RE_all by blast

lemma matchRepeat_iff:
  "matchRepeat items lo hi s \<longleftrightarrow> lo \<le> length s \<and> length s \<le> hi \<and> list_all (inClass items) s"
  by (induction s arbitrary: lo hi) auto

lemma test_NAME_RE: "test NAME_RE s = isIdentifier s"
  using inClass_NAME_RE
  by (simp add: test_def matchRepeat_iff isIdentifier_def list_all_iff) (simp add: NAME_RE_def)

lemma bind_lift_Inl [simp]: "bind (lift (Inl e)) f = (Inl e, [])"
  by (simp add: bind_def lift_def)

lemma bind_lift_Inr [simp]: "bind (lift (Inr x)) f = f x"
  by (simp add: bind_def lift_def split: prod.splits)

lemma bind_ret [simp]: "bind (ret x) f = f x"
  by (simp add: bind_def ret_def split: prod.splits)

lemma bind_throw [simp]: "bind (throw e) f = (Inl e, [])"
  by (simp add: bind_def throw_def)

lemma bind_emit [simp]: "bind (emit ev) f = (fst (f ()), ev # snd (f ()))"
  by (simp add: bind_def emit_def split: prod.splits)

lemma bind_Inl [simp]: "bind (Inl e, evs) f = (Inl e, evs)"
  by (simp add: bind_def)

lemma bind_Inr [simp]: "bind (Inr x, evs) f = (fst (f x), evs @ snd (f x))"
  by (simp add: bind_def split: prod.splits)

lemma requireNonEmpty_blank:
  "requireNonEmpty name v = (if blank v then Inl (Error (''Missing required input: '' @ name)) else Inr ())"
  by (simp add: requireNonEmpty_def blank_def)

lemma validateName_cases:
  "validateName kind v = (if isIdentifier v then Inr () else
     Inl (Error (''Invalid '' @ kind @ '': must match ^[A-Za-z0-9_-.]{3,64}$ (got ''
                        @ [dquote] @ v @ [dquote] @ '')'')))"
  by (simp add: validateName_def test_NAME_RE)

lemma prepare_invalid:
  assumes "invalidInput getInput"
  shows "\<exists>err evs. prepareRequest pf getInput = (Inl err, evs) \<and> attempts evs = 0 \<and> waits evs = []"
  using assms
  by (auto simp: invalidInput_def prepareRequest_def Let_def requireNonEmpty_blank validateName_cases
        isAdminOp_def blank_def)

lemma main_error:
  "run pf getInput fetch = (Inl err, evs) \<Longrightarrow> main pf getInput fetch = evs @ [SetFailed (message err)]"
  by (simp add: main_def)

lemma attempts_append [simp]: "attempts (xs @ ys) = attempts xs + attempts ys"
  by (induction xs rule: attempts.induct) auto

lemma waits_append [simp]: "waits (xs @ ys) = waits xs @ waits ys"
  by (induction xs rule: waits.induct) auto

section \<open>The URL of a request\<close>

lemma plainChar_kept:
  "\<forall>c. plainChar c \<longrightarrow> \<not> pathSet c \<and> c \<notin> {CHR ''/'', CHR 0x5C, CHR ''?'', CHR ''#''}"
  by code_simp

lemma pathState_plain:
  "list_all plainChar cs \<Longrightarrow> pathState buffer segs (cs @ rest) = pathState (buffer @ cs) segs rest"
proof (induction cs arbitrary: buffer)
  case Nil
  then show ?case by simp
next
  case (Cons c cs)
  then have "\<not> pathSet c" "c \<noteq> CHR ''/''" "c \<noteq> CHR 0x5C" "c \<noteq> CHR ''?''" "c \<noteq> CHR ''#''"
    using plainChar_kept by auto
  with Cons show ?case by (simp add: percentEncode_def)
qed

lemma endSegment_plain: "plainSegment b \<Longrightarrow> endSegment b segs atEnd = segs @ [b]"
  by (simp add: endSegment_def plainSegment_def)

lemma pathState_three:
  assumes "plainSegment a" "plainSegment b" "plainSegment c"
  shows "pathState [] [] (a @ ''/'' @ b @ ''/'' @ c) = ([a, b, c], None, None)"
proof -
  have pa: "list_all plainChar a" and pb: "list_all plainChar b" and pc: "list_all plainChar c"
    using assms by (simp_all add: plainSegment_def)
  have "pathState [] [] (a @ ''/'' @ b @ ''/'' @ c) = pathState a [] (''/'' @ b @ ''/'' @ c)"
    using pathState_plain [OF pa, of "[]" "[]"] by simp
  also have "\<dots> = pathState [] [a] (b @ ''/'' @ c)"
    using endSegment_plain [OF assms(1)] by simp
  also have "\<dots> = pathState b [a] (''/'' @ c)"
    using pathState_plain [OF pb, of "[]" "[a]"] by simp
  also have "\<dots> = pathState [] [a, b] (c @ [])"
    using endSegment_plain [OF assms(2)] by simp
  also have "\<dots> = pathState c [a, b] []"
    using pathState_plain [OF pc, of "[]" "[a, b]" "[]"] by simp
  also have "\<dots> = ([a, b, c], None, None)"
    using endSegment_plain [OF assms(3)] by simp
  finally show ?thesis .
qed

lemma plainChar_code: "plainChar c \<Longrightarrow> 32 < code c"
  by (simp add: plainChar_def)

lemma stripInput_id:
  assumes "list_all (\<lambda>c. 32 < code c) s"
  shows "stripInput s = s"
proof -
  have d: "dropWhile (\<lambda>c. code c \<le> 32) t = t" if "list_all (\<lambda>c. 32 < code c) t" for t
    using that by (cases t) auto
  have f: "filter (\<lambda>c. code c \<notin> {9, 10, 13}) s = s"
    using assms by (induction s) auto
  have "list_all (\<lambda>c. 32 < code c) (rev s)" using assms by (simp add: list_all_iff)
  then show ?thesis using assms f by (simp add: stripInput_def d)
qed

lemma BASE_URL_codes: "list_all (\<lambda>c. 32 < code c) BASE_URL"
  by (simp add: BASE_URL_def code_def)

lemma URL_three:
  assumes "plainSegment a" "plainSegment b" "plainSegment c"
  shows "URL (BASE_URL @ ''/'' @ a @ ''/'' @ b @ ''/'' @ c)
     = \<lparr>origin = BASE_URL, path = [a, b, c], query = None, fragment = None\<rparr>"
proof -
  have "list_all (\<lambda>c. 32 < code c) (a @ b @ c)"
    using assms plainChar_code by (auto simp: plainSegment_def list_all_iff)
  then have "list_all (\<lambda>c. 32 < code c) (BASE_URL @ ''/'' @ a @ ''/'' @ b @ ''/'' @ c)"
    using BASE_URL_codes by (simp add: code_def)
  from stripInput_id [OF this] pathState_three [OF assms] show ?thesis
    by (simp add: URL_def pathStartState_def)
qed

lemma toString_three:
  "toString \<lparr>origin = BASE_URL, path = [a, b, c], query = q, fragment = None\<rparr>
     = BASE_URL @ ''/'' @ a @ ''/'' @ b @ ''/'' @ c @ (case q of None \<Rightarrow> [] | Some s \<Rightarrow> ''?'' @ s)"
  by (simp add: toString_def)

lemma formEncode_name: "formEncode ''initializer'' = ''initializer''" "formEncode ''value'' = ''value''"
  by code_simp+

lemma searchParams_set_fresh:
  "query u = None \<Longrightarrow>
   searchParams_set fp u name v = u \<lparr>query := Some (formEncode name @ ''='' @ formEncode v)\<rparr>"
  by (simp add: searchParams_set_def formSerialize_def)


lemma identifier_alphabet:
  "list_all (\<lambda>c. uriUnreserved c \<and> plainChar c \<and> \<not> isWhiteSpace c \<and> lower c \<noteq> CHR ''%'')
     ''ABCDEFGHIJKLMNOPQRSTUVWXYZabcdefghijklmnopqrstuvwxyz0123456789_-.''"
  by code_simp

lemma identifierChar_cases:
  "identifierChar c \<Longrightarrow> uriUnreserved c \<and> plainChar c \<and> \<not> isWhiteSpace c \<and> lower c \<noteq> CHR ''%''"
  using identifier_alphabet unfolding identifierChar_def list_all_iff by blast

lemma encodeURIComponent_identifier:
  "list_all identifierChar s \<Longrightarrow> encodeURIComponent s = s"
  by (induction s) (auto simp: encodeURIComponent_def percentEncode_def identifierChar_cases)

lemma isIdentifier_plainSegment:
  assumes "isIdentifier s"
  shows "plainSegment s"
proof -
  have chars: "list_all identifierChar s" and len: "3 \<le> length s"
    using assms by (simp_all add: isIdentifier_def)
  have "\<forall>c \<in> set s. lower c \<noteq> CHR ''%''"
    using chars identifierChar_cases unfolding list_all_iff by blast
  then have "CHR ''%'' \<notin> set (map lower s)"
    by (metis (no_types, lifting) image_iff set_map)
  moreover have "length (map lower s) \<ge> 3" using len by simp
  ultimately have "\<not> singleDot s" and "\<not> doubleDot s"
    by (auto simp: singleDot_def doubleDot_def)
  then show ?thesis
    using chars identifierChar_cases by (auto simp: plainSegment_def list_all_iff)
qed

lemma trim_id:
  assumes "list_all (\<lambda>c. \<not> isWhiteSpace c) s"
  shows "trim s = s"
proof -
  have d: "dropWhile isWhiteSpace t = t" if "list_all (\<lambda>c. \<not> isWhiteSpace c) t" for t
    using that by (cases t) auto
  have "list_all (\<lambda>c. \<not> isWhiteSpace c) (rev s)" using assms by (simp add: list_all_iff)
  then show ?thesis using assms by (simp add: trim_def d)
qed

lemma isIdentifier_not_blank: "isIdentifier s \<Longrightarrow> \<not> blank s"
proof -
  assume a: "isIdentifier s"
  then have "list_all (\<lambda>c. \<not> isWhiteSpace c) s"
    using identifierChar_cases by (auto simp: isIdentifier_def list_all_iff)
  from trim_id [OF this] a show ?thesis
    by (auto simp: blank_def isIdentifier_def)
qed

lemma operations_plain:
  "plainSegment ''hit''" "plainSegment ''create''" "plainSegment ''get''" "plainSegment ''info''"
  "plainSegment ''set''" "plainSegment ''update''" "plainSegment ''reset''" "plainSegment ''delete''"
  by code_simp+

lemma normalizeBaseUrl_BASE_URL: "normalizeBaseUrl BASE_URL = BASE_URL"
  by (simp add: normalizeBaseUrl_def BASE_URL_def)

lemma buildUrl_plain:
  assumes "plainSegment op" "isIdentifier namespace" "isIdentifier key"
  shows "buildUrl fp op namespace key initializer v =
     BASE_URL @ ''/'' @ op @ ''/'' @ namespace @ ''/'' @ key
       @ (case initializer of
            Some i \<Rightarrow>
              if op = ''create'' then ''?initializer='' @ formEncode (String i)
              else (case v of
                      Some x \<Rightarrow> if op = ''set'' \<or> op = ''update'' then ''?value='' @ formEncode (String x) else []
                    | None \<Rightarrow> [])
          | None \<Rightarrow>
              (case v of
                 Some x \<Rightarrow> if op = ''set'' \<or> op = ''update'' then ''?value='' @ formEncode (String x) else []
               | None \<Rightarrow> []))"
proof -
  have e: "encodeURIComponent namespace = namespace" "encodeURIComponent key = key"
    using assms by (simp_all add: isIdentifier_def encodeURIComponent_identifier)
  have u: "URL (BASE_URL @ ''/'' @ op @ ''/'' @ namespace @ ''/'' @ key)
     = \<lparr>origin = BASE_URL, path = [op, namespace, key], query = None, fragment = None\<rparr>"
    using URL_three [OF assms(1) isIdentifier_plainSegment [OF assms(2)]
        isIdentifier_plainSegment [OF assms(3)]] .
  have b: "buildUrl fp op namespace key initializer v =
     (let u0 = \<lparr>origin = BASE_URL, path = [op, namespace, key], query = None, fragment = None\<rparr>;
          u1 = (case initializer of
                  Some i \<Rightarrow> if op = ''create'' then searchParams_set fp u0 ''initializer'' (String i)
                            else u0
                | None \<Rightarrow> u0);
          u2 = (case v of
                  Some x \<Rightarrow> if op = ''set'' \<or> op = ''update''
                            then searchParams_set fp u1 ''value'' (String x) else u1
                | None \<Rightarrow> u1)
      in toString u2)"
    by (simp only: buildUrl_def normalizeBaseUrl_BASE_URL e u Let_def)
  show ?thesis
    unfolding b
    by (cases initializer; cases v)
       (simp_all add: Let_def searchParams_set_fresh formEncode_name toString_def)
qed

lemma digitChar_code: "0 \<le> d \<Longrightarrow> d < 10 \<Longrightarrow> code (digitChar d) = 48 + d"
  by (simp add: digitChar_def code_def)

lemma formEncode_Cons:
  "isAlnum c \<or> c = CHR ''-'' \<Longrightarrow> formEncode (c # cs) = c # formEncode cs"
  by (auto simp: formEncode_def isAlnum_def code_def)

lemma formEncode_append: "formEncode (xs @ ys) = formEncode xs @ formEncode ys"
  by (simp add: formEncode_def)

lemma formEncode_Nil: "formEncode [] = []"
  by (simp add: formEncode_def)

lemma formEncode_digitsOf: "0 \<le> n \<Longrightarrow> formEncode (digitsOf n) = digitsOf n"
proof (induction n rule: digitsOf.induct)
  case (1 n)
  have a: "isAlnum (digitChar d)" if "0 \<le> d" "d < 10" for d
    using digitChar_code [OF that] that by (simp add: isAlnum_def)
  show ?case
  proof (cases "n < 10")
    case True
    with "1.prems" a [of n] show ?thesis
      by (simp add: digitsOf.simps [of n] formEncode_Cons formEncode_Nil)
  next
    case False
    then have "0 \<le> n div 10" by simp
    with False "1.IH" a [of "n mod 10"] show ?thesis
      by (simp add: digitsOf.simps [of n] formEncode_append formEncode_Cons formEncode_Nil)
  qed
qed

lemma formEncode_decimal: "formEncode (decimal v) = decimal v"
  by (simp add: decimal_def formEncode_Cons formEncode_digitsOf)

lemma String_decimal: "\<bar>v\<bar> \<le> 2 ^ 53 \<Longrightarrow> String v = decimal v"
  by (auto simp: String_def StringOfNonneg_def decimal_def)


lemma prepareRequest_valid:
  assumes "isIdentifier (getInput ''namespace'')" "isIdentifier (getInput ''key'')"
    and "plainSegment (operationOf getInput)"
    and "prepareRequest pf getInput = (Inr (u, m, headers), evs)"
  shows "u = BASE_URL @ ''/'' @ operationOf getInput @ ''/'' @ getInput ''namespace'' @ ''/''
              @ getInput ''key'' @ expectedQuery getInput
     \<and> m = methodFor (operationOf getInput)
     \<and> headers = (''Accept'', ''application/json'')
          # (if isAdminOp (operationOf getInput)
             then [(''Authorization'', ''Bearer '' @ getInput ''admin_key'')] else [])
     \<and> evs = (if isAdminOp (operationOf getInput) then [SetSecret (getInput ''admin_key'')] else [])"
  using assms(4)
  by (auto simp: prepareRequest_def Let_def requireNonEmpty_blank validateName_cases
        isIdentifier_not_blank [OF assms(1)] isIdentifier_not_blank [OF assms(2)] assms(1,2)
        buildUrl_plain [OF assms(3) assms(1) assms(2)] expectedQuery_def isAdminOp_def
        ret_def throw_def
      split: if_splits sum.splits)

lemma prepareRequest_identifiers:
  assumes "prepareRequest pf getInput = (Inr r, evs)"
  shows "isIdentifier (getInput ''namespace'') \<and> isIdentifier (getInput ''key'')"
proof (rule ccontr)
  assume "\<not> (isIdentifier (getInput ''namespace'') \<and> isIdentifier (getInput ''key''))"
  then have "invalidInput getInput" by (auto simp: invalidInput_def)
  from prepare_invalid [OF this, of pf] assms show False by auto
qed


lemma prepareRequest_parsed:
  assumes "prepareRequest pf getInput = (Inr r, evs)"
  shows "(operationOf getInput = ''create'' \<longrightarrow>
           (\<exists>i. parseInteger ''initializer''
                  (if getInput ''initializer'' = [] then ''0'' else getInput ''initializer'') = Inr i))
       \<and> (operationOf getInput = ''set'' \<or> operationOf getInput = ''update'' \<longrightarrow>
           (\<exists>x. parseInteger ''value'' (getInput ''value'') = Inr x))"
  using assms prepareRequest_identifiers [OF assms]
  by (cases "parseInteger ''initializer''
               (if getInput ''initializer'' = [] then ''0'' else getInput ''initializer'')";
      cases "parseInteger ''value'' (getInput ''value'')")
     (auto simp: prepareRequest_def Let_def requireNonEmpty_blank validateName_cases
        isIdentifier_not_blank isAdminOp_def ret_def throw_def
      split: if_splits)

lemma parseInteger_0: "parseInteger ''initializer'' ''0'' = Inr 0"
  by code_simp

lemma String_0: "String 0 = ''0''"
  by code_simp

lemma formEncode_0: "formEncode ''0'' = ''0''"
  by code_simp

lemma retryLoop_starts:
  "\<exists>rest. snd (retryLoop fetch u m headers attempt backoffMs) = Fetch u m headers # rest"
  by (cases "iteration (attempt + 1) backoffMs (fetch (attempt + 1))")
     (simp_all add: retryLoop_Return retryLoop_Throw retryLoop_Continue)


lemma waits_between_attempts:
  "attempts (snd (retryLoop fetch u m headers attempt backoffMs))
     = Suc (length (waits (snd (retryLoop fetch u m headers attempt backoffMs))))"
proof (induction fetch u m headers attempt backoffMs rule: retryLoop.induct)
  case (1 fetch u m headers attempt backoffMs)
  show ?case
  proof (cases "iteration (attempt + 1) backoffMs (fetch (attempt + 1))")
    case (Return res)
    then show ?thesis by (simp add: retryLoop_Return)
  next
    case (Throw err)
    then show ?thesis by (simp add: retryLoop_Throw)
  next
    case (Continue w)
    from "1.IH" [OF Continue] show ?thesis
      by (simp add: retryLoop_Continue [of attempt backoffMs fetch w u m headers, OF Continue])
  qed
qed

lemma parseInteger_2: "parseInteger ''Retry-After'' ''2'' = Inr 2"
  by code_simp

lemma parseInteger_minus_5: "parseInteger ''Retry-After'' ''-5'' = Inr (- 5)"
  by code_simp

section \<open>Claims about the retry executor\<close>

text \<open>
  C1, as the code has it. For every 429 response handled while the attempt count is below
  \<open>MAX_ATTEMPTS\<close>, the executor waits \<open>max 0 v\<close> when the \<^verbatim>\<open>Retry-After\<close> header is
  present, not empty and parses as a finite integer \<open>v\<close> (so a negative integer gives a
  wait of 0), and otherwise waits the current stored backoff; in either case the loop goes
  on with the stored backoff doubled from its own prior value and capped at 8000, whatever
  the header said.
\<close>

theorem retry_after_wait:
  assumes "attempt + 1 < MAX_ATTEMPTS"
    and "fetch (attempt + 1) = Responded res"
    and "status res = 429"
  shows "retryLoop fetch u m headers attempt backoffMs =
     (fst (retryLoop fetch u m headers (attempt + 1) (min (backoffMs * 2) 8000)),
      Fetch u m headers
        # Sleep (case retry_after res of
                   None \<Rightarrow> backoffMs
                 | Some ra \<Rightarrow>
                     if ra = [] then backoffMs
                     else (case parseInteger ''Retry-After'' ra of
                             Inl err \<Rightarrow> backoffMs
                           | Inr v \<Rightarrow> max 0 v))
        # snd (retryLoop fetch u m headers (attempt + 1) (min (backoffMs * 2) 8000)))"
proof -
  let ?w = "case retry_after res of
              None \<Rightarrow> backoffMs
            | Some ra \<Rightarrow>
                if ra = [] then backoffMs
                else (case parseInteger ''Retry-After'' ra of
                        Inl err \<Rightarrow> backoffMs
                      | Inr v \<Rightarrow> max 0 v)"
  have "iteration (attempt + 1) backoffMs (fetch (attempt + 1)) = Continue ?w"
    using assms
    by (simp add: iteration_def try_block_def catch_clause_def split: option.splits sum.splits)
  from retryLoop_Continue [of attempt backoffMs fetch ?w u m headers, OF this]
  show ?thesis
    by (simp add: nextBackoff_def)
qed

text \<open>A 429 with \<^verbatim>\<open>Retry-After: 2\<close>, then a 503, then a 200: the first wait is 2, the
  second is 1000, the backoff doubled from 500.\<close>

theorem retry_after_wait_witness:
  "requestWithRetries
     (\<lambda>n. if n = 1 then Responded \<lparr>status = 429, retry_after = Some ''2'', body = Inr []\<rparr>
          else if n = 2 then Responded \<lparr>status = 503, retry_after = None, body = Inr []\<rparr>
          else Responded \<lparr>status = 200, retry_after = None, body = Inr []\<rparr>)
     ''u'' GET []
   = (Inr \<lparr>status = 200, retry_after = None, body = Inr []\<rparr>,
      [Fetch ''u'' GET [], Sleep 2, Fetch ''u'' GET [], Sleep 1000, Fetch ''u'' GET []])"
  unfolding requestWithRetries_def
  using retry_after_wait [of 0
     "\<lambda>n. if n = 1 then Responded \<lparr>status = 429, retry_after = Some ''2'', body = Inr []\<rparr>
          else if n = 2 then Responded \<lparr>status = 503, retry_after = None, body = Inr []\<rparr>
          else Responded \<lparr>status = 200, retry_after = None, body = Inr []\<rparr>"
     "\<lparr>status = 429, retry_after = Some ''2'', body = Inr []\<rparr>" "''u''" GET "[]" 500]
  by (simp add: parseInteger_2 MAX_ATTEMPTS_def retryLoop.simps
        iteration_def try_block_def catch_clause_def nextBackoff_def)

text \<open>C1 as stated fails on a header that holds a negative integer: \<^verbatim>\<open>Retry-After: -5\<close>
  is not a non-negative integer, so the stated rule waits the stored backoff of 500; the
  code waits 0.\<close>

theorem negative_retry_after:
  "iteration 1 500 (Responded \<lparr>status = 429, retry_after = Some ''-5'', body = Inr []\<rparr>) = Continue 0
   \<and> claimedWait 500 \<lparr>status = 429, retry_after = Some ''-5'', body = Inr []\<rparr> = 500"
  by (simp add: iteration_def try_block_def claimedWait_def parseInteger_minus_5 MAX_ATTEMPTS_def)

text \<open>
  C2. For every sequence of attempt outcomes the executor returns (\<open>retryLoop\<close> is a total
  function, its recursion bounded by the attempt count) after at most \<open>MAX_ATTEMPTS\<close> = 5
  physical attempts. When the first five outcomes are all qualifying failures, there are
  exactly five attempts and no sixth: a rejection of the fifth exchange is thrown, and a
  response to the fifth exchange, its 429 or 5xx status notwithstanding, is returned as
  it is.
\<close>

theorem attempts_bounded:
  "MAX_ATTEMPTS = 5
   \<and> attempts (snd (requestWithRetries fetch u m headers)) \<le> MAX_ATTEMPTS
   \<and> ((\<forall>n \<in> {1..MAX_ATTEMPTS}. qualifying (fetch n)) \<longrightarrow>
        attempts (snd (requestWithRetries fetch u m headers)) = MAX_ATTEMPTS
        \<and> fst (requestWithRetries fetch u m headers) =
            (case fetch MAX_ATTEMPTS of Rejected err \<Rightarrow> Inl err | Responded res \<Rightarrow> Inr res))"
proof (intro conjI impI)
  show "MAX_ATTEMPTS = 5" by (simp add: MAX_ATTEMPTS_def)
  show "attempts (snd (requestWithRetries fetch u m headers)) \<le> MAX_ATTEMPTS"
    using attempts_retryLoop [of fetch u m headers 0 500]
    by (simp add: requestWithRetries_def MAX_ATTEMPTS_def)
next
  assume q: "\<forall>n \<in> {1..MAX_ATTEMPTS}. qualifying (fetch n)"
  from exhausted [OF q, of u m headers]
  show "attempts (snd (requestWithRetries fetch u m headers)) = MAX_ATTEMPTS"
    and "fst (requestWithRetries fetch u m headers) =
            (case fetch MAX_ATTEMPTS of Rejected err \<Rightarrow> Inl err | Responded res \<Rightarrow> Inr res)"
    by simp_all
qed

text \<open>Four rejected exchanges and then a 503: five attempts, and the 503 is returned.\<close>

theorem attempts_bounded_witness:
  "qualifying (Rejected (Error ''down''))
   \<and> qualifying (Responded \<lparr>status = 503, retry_after = None, body = Inr ''busy''\<rparr>)
   \<and> attempts (snd (requestWithRetries
         (\<lambda>n. if n < 5 then Rejected (Error ''down'')
              else Responded \<lparr>status = 503, retry_after = None, body = Inr ''busy''\<rparr>)
         ''u'' GET [])) = 5
   \<and> fst (requestWithRetries
         (\<lambda>n. if n < 5 then Rejected (Error ''down'')
              else Responded \<lparr>status = 503, retry_after = None, body = Inr ''busy''\<rparr>)
         ''u'' GET []) = Inr \<lparr>status = 503, retry_after = None, body = Inr ''busy''\<rparr>"
  using attempts_bounded [of
      "\<lambda>n. if n < 5 then Rejected (Error ''down'')
           else Responded \<lparr>status = 503, retry_after = None, body = Inr ''busy''\<rparr>" "''u''" GET "[]"]
  by (simp add: qualifying_def MAX_ATTEMPTS_def)

text \<open>
  C3. When no response carries a \<^verbatim>\<open>Retry-After\<close> header, the waits between successive
  attempts are, in order, \<open>min (500 * 2^k) 8000\<close> for \<open>k = 0, 1, 2, ...\<close> (the \<open>k\<close>-th wait
  counted from 0), as many as there are waits; the stored backoff after \<open>k\<close> doublings is
  \<open>min (500 * 2^k) 8000\<close>, that is 500, 1000, 2000, 4000, 8000, 8000, ...; and two 503
  responses followed by a 200 make exactly three attempts with waits of 500 and 1000.
\<close>

theorem backoff_sequence:
  "((\<forall>n res. fetch n = Responded res \<longrightarrow> retry_after res = None) \<longrightarrow>
      waits (snd (requestWithRetries fetch u m headers)) =
        map (\<lambda>k. min (500 * 2 ^ k) 8000)
          [0..<length (waits (snd (requestWithRetries fetch u m headers)))])
   \<and> (nextBackoff ^^ k) 500 = min (500 * 2 ^ k) 8000
   \<and> (fetch 1 = Responded r1 \<and> status r1 = 503 \<and> fetch 2 = Responded r2 \<and> status r2 = 503
        \<and> fetch 3 = Responded r3 \<and> status r3 = 200 \<longrightarrow>
      requestWithRetries fetch u m headers =
        (Inr r3, [Fetch u m headers, Sleep 500, Fetch u m headers, Sleep 1000,
                  Fetch u m headers]))"
proof (intro conjI impI)
  assume "\<forall>n res. fetch n = Responded res \<longrightarrow> retry_after res = None"
  from waits_retryLoop [OF this, of 500 u m headers 0]
  show "waits (snd (requestWithRetries fetch u m headers)) =
        map (\<lambda>k. min (500 * 2 ^ k) 8000)
          [0..<length (waits (snd (requestWithRetries fetch u m headers)))]"
    by (simp add: requestWithRetries_def)
next
  show "(nextBackoff ^^ k) 500 = min (500 * 2 ^ k) 8000"
    by (rule nextBackoff_pow) simp
next
  assume a: "fetch 1 = Responded r1 \<and> status r1 = 503 \<and> fetch 2 = Responded r2 \<and> status r2 = 503
        \<and> fetch 3 = Responded r3 \<and> status r3 = 200"
  have i1: "iteration (0 + 1) 500 (fetch (0 + 1)) = Continue 500"
    using a by (simp add: iteration_def try_block_def MAX_ATTEMPTS_def)
  have i2: "iteration (1 + 1) 1000 (fetch (1 + 1)) = Continue 1000"
    unfolding one_add_one using a by (simp add: iteration_def try_block_def MAX_ATTEMPTS_def)
  have i3: "iteration (2 + 1) 2000 (fetch (2 + 1)) = Return r3"
    using a by (simp add: iteration_def try_block_def MAX_ATTEMPTS_def)
  let ?F = "Fetch u m headers"
  have l3: "retryLoop fetch u m headers 2 2000 = (Inr r3, [?F])"
    using retryLoop_Return [of 2 2000 fetch r3 u m headers, OF i3] .
  have l2: "retryLoop fetch u m headers 1 1000 = (Inr r3, [?F, Sleep 1000, ?F])"
    using retryLoop_Continue [of 1 1000 fetch 1000 u m headers, OF i2] l3
    by (simp add: nextBackoff_def one_add_one del: One_nat_def)
  have l1: "retryLoop fetch u m headers 0 500 = (Inr r3, [?F, Sleep 500, ?F, Sleep 1000, ?F])"
    using retryLoop_Continue [of 0 500 fetch 500 u m headers, OF i1] l2
    by (simp add: nextBackoff_def del: One_nat_def)
  show "requestWithRetries fetch u m headers =
        (Inr r3, [?F, Sleep 500, ?F, Sleep 1000, ?F])"
    by (simp add: requestWithRetries_def l1)
qed

text \<open>Two 503 responses and then a 200, none with a header.\<close>

theorem backoff_sequence_witness:
  "\<not> (\<exists>n res. (\<lambda>n. if n \<le> 2 then Responded \<lparr>status = 503, retry_after = None, body = Inr []\<rparr>
                  else Responded \<lparr>status = 200, retry_after = None, body = Inr ''ok''\<rparr>) n
               = Responded res \<and> retry_after res \<noteq> None)
   \<and> waits (snd (requestWithRetries
        (\<lambda>n. if n \<le> 2 then Responded \<lparr>status = 503, retry_after = None, body = Inr []\<rparr>
             else Responded \<lparr>status = 200, retry_after = None, body = Inr ''ok''\<rparr>)
        ''u'' GET [])) = [500, 1000]
   \<and> attempts (snd (requestWithRetries
        (\<lambda>n. if n \<le> 2 then Responded \<lparr>status = 503, retry_after = None, body = Inr []\<rparr>
             else Responded \<lparr>status = 200, retry_after = None, body = Inr ''ok''\<rparr>)
        ''u'' GET [])) = 3"
  using backoff_sequence [of
      "\<lambda>n. if n \<le> 2 then Responded \<lparr>status = 503, retry_after = None, body = Inr []\<rparr>
           else Responded \<lparr>status = 200, retry_after = None, body = Inr ''ok''\<rparr>"
      "''u''" GET "[]" 0
      "\<lparr>status = 503, retry_after = None, body = Inr []\<rparr>"
      "\<lparr>status = 503, retry_after = None, body = Inr []\<rparr>"
      "\<lparr>status = 200, retry_after = None, body = Inr ''ok''\<rparr>"]
  by (auto split: if_splits)

section \<open>Claims about the validator\<close>

text \<open>
  C5. \<open>validateName\<close> accepts exactly the identifiers: for every string of 3 to 64
  characters drawn from \<open>[A-Za-z0-9_.-]\<close> it succeeds, and for every other string it fails
  with an error whose message contains the offending value. It looks at one value only,
  so namespace and key are judged independently.
\<close>

theorem validateName_pattern:
  "(isIdentifier v \<longrightarrow> validateName kind v = Inr ())
   \<and> (\<not> isIdentifier v \<longrightarrow>
        (\<exists>msg. validateName kind v = Inl (Error msg) \<and> sublist v msg))"
proof -
  have "sublist v (''Invalid '' @ kind @ '': must match ^[A-Za-z0-9_-.]{3,64}$ (got ''
                        @ [dquote] @ v @ [dquote] @ '')'')"
    unfolding sublist_def
    by (rule exI [of _ "''Invalid '' @ kind @ '': must match ^[A-Za-z0-9_-.]{3,64}$ (got '' @ [dquote]"],
        rule exI [of _ "[dquote] @ '')''"]) simp
  then show ?thesis
    by (simp add: validateName_def test_NAME_RE)
qed

text \<open>\<open>ns1\<close> is accepted; \<open>my key\<close>, with its space, is refused with its value quoted.\<close>

theorem validateName_pattern_witness:
  "isIdentifier ''ns1'' \<and> validateName ''namespace'' ''ns1'' = Inr ()
   \<and> \<not> isIdentifier ''my key''
   \<and> (\<exists>msg. validateName ''key'' ''my key'' = Inl (Error msg) \<and> sublist ''my key'' msg)"
  using validateName_pattern [of "''ns1''" "''namespace''"] validateName_pattern [of "''my key''" "''key''"]
  by (simp add: isIdentifier_def identifierChar_def)

text \<open>
  C9. For every invocation with invalid input (an empty, blank or pattern-violating
  namespace or key, a missing value for \<open>set\<close> or \<open>update\<close>, a missing admin key for an admin
  operation) \<open>run\<close> throws a validation error, which the process reports as its failure,
  and the run holds no HTTP exchange and no wait: nothing is requested and nothing retried.
\<close>

theorem validation_before_network:
  assumes "invalidInput getInput"
  shows "\<exists>err evs. run pf getInput fetch = (Inl err, evs)
           \<and> main pf getInput fetch = evs @ [SetFailed (message err)]
           \<and> attempts (main pf getInput fetch) = 0
           \<and> waits (main pf getInput fetch) = []"
proof -
  from prepare_invalid [OF assms, of pf] obtain err evs
    where p: "prepareRequest pf getInput = (Inl err, evs)" and a: "attempts evs = 0" and w: "waits evs = []"
    by blast
  have r: "run pf getInput fetch = (Inl err, evs)"
    by (simp add: run_def p)
  from main_error [OF r] a w r show ?thesis by simp
qed

text \<open>\<open>set\<close> without a value, and \<open>delete\<close> without an admin key: the failure is reported
  and no request is made.\<close>

theorem validation_before_network_witness:
  "invalidInput (\<lambda>name. if name = ''operation'' then ''set'' else if name = ''namespace'' then ''ns1''
        else if name = ''key'' then ''mykey'' else if name = ''admin_key'' then ''k'' else [])
   \<and> main \<lparr>JSON_parse = (\<lambda>text. None), formParse = (\<lambda>q. [])\<rparr>
        (\<lambda>name. if name = ''operation'' then ''set'' else if name = ''namespace'' then ''ns1''
           else if name = ''key'' then ''mykey'' else if name = ''admin_key'' then ''k'' else [])
        (\<lambda>n. Rejected (Error ''unused''))
      = [SetSecret ''k'', SetFailed ''Missing required input: value (required for operation=set)'']
   \<and> invalidInput (\<lambda>name. if name = ''operation'' then ''delete'' else if name = ''namespace'' then ''ns1''
        else if name = ''key'' then ''mykey'' else [])
   \<and> main \<lparr>JSON_parse = (\<lambda>text. None), formParse = (\<lambda>q. [])\<rparr>
        (\<lambda>name. if name = ''operation'' then ''delete'' else if name = ''namespace'' then ''ns1''
           else if name = ''key'' then ''mykey'' else [])
        (\<lambda>n. Rejected (Error ''unused''))
      = [SetFailed ''Missing required input: admin_key'']"
proof -
  let ?pf = "\<lparr>JSON_parse = (\<lambda>text. None), formParse = (\<lambda>q. [])\<rparr>"
  let ?set = "\<lambda>name. if name = ''operation'' then ''set'' else if name = ''namespace'' then ''ns1''
        else if name = ''key'' then ''mykey'' else if name = ''admin_key'' then ''k'' else []"
  let ?delete = "\<lambda>name. if name = ''operation'' then ''delete'' else if name = ''namespace'' then ''ns1''
        else if name = ''key'' then ''mykey'' else []"
  let ?fetch = "\<lambda>n::nat. Rejected (Error ''unused'')"
  have i1: "invalidInput ?set"
    by (simp add: invalidInput_def operationOf_def blank_def)
  have i2: "invalidInput ?delete"
    by (simp add: invalidInput_def operationOf_def blank_def isAdminOp_def)
  have m1: "main ?pf ?set ?fetch
      = [SetSecret ''k'', SetFailed ''Missing required input: value (required for operation=set)'']"
    by code_simp
  have m2: "main ?pf ?delete ?fetch = [SetFailed ''Missing required input: admin_key'']"
    by code_simp
  from validation_before_network [OF i1, of ?pf ?fetch] validation_before_network [OF i2, of ?pf ?fetch]
    i1 i2 m1 m2
  show ?thesis by simp
qed

section \<open>Claims about the request builder\<close>

text \<open>
  C6, as the code has it. For each of the eight operations and inputs that pass validation,
  the request uses GET for \<open>hit\<close>, \<open>create\<close>, \<open>get\<close>, \<open>info\<close> and POST for \<open>set\<close>, \<open>update\<close>,
  \<open>reset\<close>, \<open>delete\<close>; its URL is the base origin followed by the operation, the
  percent-encoded namespace and the percent-encoded key, each after a slash; \<open>create\<close>
  attaches \<open>initializer\<close> (0 when the input is absent) and \<open>set\<close> and \<open>update\<close> attach
  \<open>value\<close>, as the form-encoded \<^verbatim>\<open>String\<close> of the parsed number, which is its decimal
  integer string when its magnitude is at most \<open>2^53\<close>; no other operation attaches a query;
  the headers are \<open>Accept\<close> and, for the admin operations, \<open>Authorization: Bearer\<close> with
  the admin key; and the URL is the same whatever the admin key is.
\<close>

theorem request_shape:
  assumes "operationOf getInput \<in> {''hit'', ''create'', ''get'', ''info'', ''set'', ''update'', ''reset'', ''delete''}"
    and "prepareRequest pf getInput = (Inr (u, m, headers), evs)"
  shows "m = (if operationOf getInput \<in> {''set'', ''update'', ''reset'', ''delete''} then POST else GET)
     \<and> headers = (''Accept'', ''application/json'')
          # (if operationOf getInput \<in> {''set'', ''update'', ''reset'', ''delete''}
             then [(''Authorization'', ''Bearer '' @ getInput ''admin_key'')] else [])
     \<and> (\<exists>q. u = BASE_URL @ ''/'' @ operationOf getInput
                  @ ''/'' @ encodeURIComponent (getInput ''namespace'')
                  @ ''/'' @ encodeURIComponent (getInput ''key'') @ q
           \<and> (operationOf getInput = ''create'' \<longrightarrow>
                (\<exists>i. parseInteger ''initializer''
                        (if getInput ''initializer'' = [] then ''0'' else getInput ''initializer'') = Inr i
                     \<and> q = ''?initializer='' @ formEncode (String i)
                     \<and> (\<bar>i\<bar> \<le> 2 ^ 53 \<longrightarrow> q = ''?initializer='' @ decimal i)))
           \<and> (operationOf getInput = ''create'' \<and> getInput ''initializer'' = [] \<longrightarrow>
                q = ''?initializer=0'')
           \<and> (operationOf getInput = ''set'' \<or> operationOf getInput = ''update'' \<longrightarrow>
                (\<exists>x. parseInteger ''value'' (getInput ''value'') = Inr x
                     \<and> q = ''?value='' @ formEncode (String x)
                     \<and> (\<bar>x\<bar> \<le> 2 ^ 53 \<longrightarrow> q = ''?value='' @ decimal x)))
           \<and> (operationOf getInput \<notin> {''create'', ''set'', ''update''} \<longrightarrow> q = []))
     \<and> (\<forall>k u' m' headers' evs'.
           prepareRequest pf (getInput(''admin_key'' := k)) = (Inr (u', m', headers'), evs')
           \<longrightarrow> u' = u)"
proof -
  let ?op = "operationOf getInput"
  have ids: "isIdentifier (getInput ''namespace'')" "isIdentifier (getInput ''key'')"
    using prepareRequest_identifiers [OF assms(2)] by simp_all
  have plain: "plainSegment ?op"
    using assms(1) operations_plain by auto
  have enc: "encodeURIComponent (getInput ''namespace'') = getInput ''namespace''"
      "encodeURIComponent (getInput ''key'') = getInput ''key''"
    using ids by (simp_all add: isIdentifier_def encodeURIComponent_identifier)
  note shape = prepareRequest_valid [OF ids plain assms(2)]
  note parsed = prepareRequest_parsed [OF assms(2)]
  have m: "m = (if ?op \<in> {''set'', ''update'', ''reset'', ''delete''} then POST else GET)"
    using shape by (simp add: methodFor_def isAdminOp_def)
  have h: "headers = (''Accept'', ''application/json'')
          # (if ?op \<in> {''set'', ''update'', ''reset'', ''delete''}
             then [(''Authorization'', ''Bearer '' @ getInput ''admin_key'')] else [])"
    using shape by (simp add: isAdminOp_def)
  have u: "u = BASE_URL @ ''/'' @ ?op @ ''/'' @ encodeURIComponent (getInput ''namespace'')
                  @ ''/'' @ encodeURIComponent (getInput ''key'') @ expectedQuery getInput"
    using shape enc by simp
  have q1: "?op = ''create'' \<longrightarrow>
      (\<exists>i. parseInteger ''initializer''
              (if getInput ''initializer'' = [] then ''0'' else getInput ''initializer'') = Inr i
           \<and> expectedQuery getInput = ''?initializer='' @ formEncode (String i)
           \<and> (\<bar>i\<bar> \<le> 2 ^ 53 \<longrightarrow> expectedQuery getInput = ''?initializer='' @ decimal i))"
    using parsed by (auto simp: expectedQuery_def String_decimal formEncode_decimal)
  have q2: "?op = ''create'' \<and> getInput ''initializer'' = [] \<longrightarrow>
      expectedQuery getInput = ''?initializer=0''"
    by (simp add: expectedQuery_def parseInteger_0 String_0 formEncode_0)
  have q3: "?op = ''set'' \<or> ?op = ''update'' \<longrightarrow>
      (\<exists>x. parseInteger ''value'' (getInput ''value'') = Inr x
           \<and> expectedQuery getInput = ''?value='' @ formEncode (String x)
           \<and> (\<bar>x\<bar> \<le> 2 ^ 53 \<longrightarrow> expectedQuery getInput = ''?value='' @ decimal x))"
    using parsed by (auto simp: expectedQuery_def String_decimal formEncode_decimal)
  have q4: "?op \<notin> {''create'', ''set'', ''update''} \<longrightarrow> expectedQuery getInput = []"
    by (simp add: expectedQuery_def)
  have indep: "u' = u"
    if p: "prepareRequest pf (getInput(''admin_key'' := k)) = (Inr (u', m', headers'), evs')"
    for k u' m' headers' evs'
  proof -
    let ?g = "getInput(''admin_key'' := k)"
    have same: "operationOf ?g = ?op" "?g ''namespace'' = getInput ''namespace''"
        "?g ''key'' = getInput ''key''" "expectedQuery ?g = expectedQuery getInput"
      by (simp_all add: operationOf_def expectedQuery_def)
    from prepareRequest_valid [of ?g pf u' m' headers' evs'] ids plain p same shape
    show ?thesis by simp
  qed
  from m h u q1 q2 q3 q4 indep show ?thesis by blast
qed

text \<open>The specification's \<open>create\<close> scenario, and a \<open>set\<close> with its admin key.\<close>

theorem request_shape_witness:
  "prepareRequest \<lparr>JSON_parse = (\<lambda>text. None), formParse = (\<lambda>q. [])\<rparr>
     (\<lambda>name. if name = ''operation'' then ''create'' else if name = ''namespace'' then ''ns1''
        else if name = ''key'' then ''mykey'' else if name = ''initializer'' then ''5'' else [])
   = (Inr (''https://abacus.jasoncameron.dev/create/ns1/mykey?initializer=5'', GET,
           [(''Accept'', ''application/json'')]), [])
   \<and> prepareRequest \<lparr>JSON_parse = (\<lambda>text. None), formParse = (\<lambda>q. [])\<rparr>
     (\<lambda>name. if name = ''operation'' then ''set'' else if name = ''namespace'' then ''ns1''
        else if name = ''key'' then ''mykey'' else if name = ''value'' then ''12''
        else if name = ''admin_key'' then ''s3cret'' else [])
   = (Inr (''https://abacus.jasoncameron.dev/set/ns1/mykey?value=12'', POST,
           [(''Accept'', ''application/json''), (''Authorization'', ''Bearer s3cret'')]),
      [SetSecret ''s3cret''])"
proof -
  let ?pf = "\<lparr>JSON_parse = (\<lambda>text. None), formParse = (\<lambda>q. [])\<rparr>"
  let ?create = "\<lambda>name. if name = ''operation'' then ''create'' else if name = ''namespace'' then ''ns1''
        else if name = ''key'' then ''mykey'' else if name = ''initializer'' then ''5'' else []"
  let ?set = "\<lambda>name. if name = ''operation'' then ''set'' else if name = ''namespace'' then ''ns1''
        else if name = ''key'' then ''mykey'' else if name = ''value'' then ''12''
        else if name = ''admin_key'' then ''s3cret'' else []"
  have o1: "operationOf ?create \<in> {''hit'', ''create'', ''get'', ''info'', ''set'', ''update'', ''reset'', ''delete''}"
    and o2: "operationOf ?set \<in> {''hit'', ''create'', ''get'', ''info'', ''set'', ''update'', ''reset'', ''delete''}"
    by (simp_all add: operationOf_def)
  have p1: "prepareRequest ?pf ?create
      = (Inr (''https://abacus.jasoncameron.dev/create/ns1/mykey?initializer=5'', GET,
              [(''Accept'', ''application/json'')]), [])"
    by code_simp
  have p2: "prepareRequest ?pf ?set
      = (Inr (''https://abacus.jasoncameron.dev/set/ns1/mykey?value=12'', POST,
              [(''Accept'', ''application/json''), (''Authorization'', ''Bearer s3cret'')]),
         [SetSecret ''s3cret''])"
    by code_simp
  from request_shape [OF o1 p1] request_shape [OF o2 p2] p1 p2 show ?thesis by simp
qed

text \<open>C6 as stated fails on a large initializer: \<open>1e21\<close> passes \<open>parseInteger\<close>, and what is
  attached is \<open>1e+21\<close>, form-encoded, not the decimal digits of the integer.\<close>

theorem exponent_notation_initializer:
  "prepareRequest \<lparr>JSON_parse = (\<lambda>text. None), formParse = (\<lambda>q. [])\<rparr>
     (\<lambda>name. if name = ''operation'' then ''create'' else if name = ''namespace'' then ''ns1''
        else if name = ''key'' then ''mykey'' else if name = ''initializer'' then ''1e21'' else [])
   = (Inr (''https://abacus.jasoncameron.dev/create/ns1/mykey?initializer=1e%2B21'', GET,
           [(''Accept'', ''application/json'')]), [])
   \<and> parseInteger ''initializer'' ''1e21'' = Inr 1000000000000000000000
   \<and> decimal 1000000000000000000000 = ''1000000000000000000000''"
  by code_simp

text \<open>
  C10, as the code has it. The operation is never checked against the eight variants: for
  every operation outside them, with a valid namespace and key, no validation error is
  raised whatever the other inputs are, nothing is marked secret, the method is GET, the
  only header is \<open>Accept\<close>, \<^verbatim>\<open>buildUrl\<close> attaches no query parameter, and the requests of the
  run go to what the URL parser makes of the origin, the operation as it is written, the
  namespace and the key, joined by slashes. When the operation is a plain path segment
  (printable ASCII other than the space and \<^verbatim>\<open>" # / < > ? \ ` { }\<close>, and no dot segment),
  that URL is the origin followed by \<open>/operation/namespace/key\<close>, with no query.
\<close>

theorem unknown_operation:
  assumes "operationOf getInput \<notin> {''hit'', ''create'', ''get'', ''info'', ''set'', ''update'', ''reset'', ''delete''}"
    and "isIdentifier (getInput ''namespace'')"
    and "isIdentifier (getInput ''key'')"
  shows "prepareRequest pf getInput =
       (Inr (toString (URL (BASE_URL @ ''/'' @ operationOf getInput @ ''/'' @ getInput ''namespace''
                              @ ''/'' @ getInput ''key'')),
             GET, [(''Accept'', ''application/json'')]), [])
     \<and> (\<exists>rest. main pf getInput fetch =
           Fetch (toString (URL (BASE_URL @ ''/'' @ operationOf getInput @ ''/'' @ getInput ''namespace''
                                   @ ''/'' @ getInput ''key'')))
             GET [(''Accept'', ''application/json'')] # rest)
     \<and> (plainSegment (operationOf getInput) \<longrightarrow>
          toString (URL (BASE_URL @ ''/'' @ operationOf getInput @ ''/'' @ getInput ''namespace''
                           @ ''/'' @ getInput ''key''))
            = BASE_URL @ ''/'' @ operationOf getInput @ ''/'' @ getInput ''namespace''
                @ ''/'' @ getInput ''key''
          \<and> query (URL (BASE_URL @ ''/'' @ operationOf getInput @ ''/'' @ getInput ''namespace''
                           @ ''/'' @ getInput ''key'')) = None)"
proof -
  let ?op = "operationOf getInput"
  let ?u = "toString (URL (BASE_URL @ ''/'' @ ?op @ ''/'' @ getInput ''namespace''
                              @ ''/'' @ getInput ''key''))"
  let ?h = "[(''Accept'', ''application/json'')]"
  have enc: "encodeURIComponent (getInput ''namespace'') = getInput ''namespace''"
      "encodeURIComponent (getInput ''key'') = getInput ''key''"
    using assms(2,3) by (simp_all add: isIdentifier_def encodeURIComponent_identifier)
  have b: "buildUrl (formParse pf) ?op (getInput ''namespace'') (getInput ''key'') None None = ?u"
    by (simp only: buildUrl_def normalizeBaseUrl_BASE_URL enc Let_def option.case)
  have ops: "\<not> isAdminOp ?op" "?op \<noteq> ''create''" "?op \<noteq> ''set''" "?op \<noteq> ''update''"
    using assms(1) by (auto simp: isAdminOp_def)
  have p: "prepareRequest pf getInput = (Inr (?u, GET, ?h), [])"
    using ops b assms(2,3)
    by (simp add: prepareRequest_def Let_def requireNonEmpty_blank validateName_cases
          isIdentifier_not_blank methodFor_def ret_def)
  obtain rest where r: "snd (requestWithRetries fetch ?u GET ?h) = Fetch ?u GET ?h # rest"
    using retryLoop_starts [of fetch ?u GET ?h 0 500] by (auto simp: requestWithRetries_def)
  have "\<exists>rest'. main pf getInput fetch = Fetch ?u GET ?h # rest'"
    using r
    by (cases "requestWithRetries fetch ?u GET ?h")
       (auto simp: main_def run_def p bind_def split: sum.splits prod.splits)
  moreover have "plainSegment ?op \<longrightarrow>
      ?u = BASE_URL @ ''/'' @ ?op @ ''/'' @ getInput ''namespace'' @ ''/'' @ getInput ''key''
      \<and> query (URL (BASE_URL @ ''/'' @ ?op @ ''/'' @ getInput ''namespace''
                           @ ''/'' @ getInput ''key'')) = None"
    using URL_three [of ?op "getInput ''namespace''" "getInput ''key''"]
      isIdentifier_plainSegment [OF assms(2)] isIdentifier_plainSegment [OF assms(3)]
    by (simp add: toString_def)
  ultimately show ?thesis using p by blast
qed

text \<open>The operations \<open>increment\<close> and \<open>a^b\<close>, which the service does not have.\<close>

theorem unknown_operation_witness:
  "prepareRequest \<lparr>JSON_parse = (\<lambda>text. None), formParse = (\<lambda>q. [])\<rparr>
     (\<lambda>name. if name = ''operation'' then ''increment'' else if name = ''namespace'' then ''ns1''
        else if name = ''key'' then ''mykey'' else if name = ''admin_key'' then ''k'' else [])
   = (Inr (''https://abacus.jasoncameron.dev/increment/ns1/mykey'', GET,
           [(''Accept'', ''application/json'')]), [])
   \<and> prepareRequest \<lparr>JSON_parse = (\<lambda>text. None), formParse = (\<lambda>q. [])\<rparr>
     (\<lambda>name. if name = ''operation'' then ''a^b'' else if name = ''namespace'' then ''ns1''
        else if name = ''key'' then ''mykey'' else [])
   = (Inr (''https://abacus.jasoncameron.dev/a^b/ns1/mykey'', GET,
           [(''Accept'', ''application/json'')]), [])"
proof -
  let ?pf = "\<lparr>JSON_parse = (\<lambda>text. None), formParse = (\<lambda>q. [])\<rparr>"
  let ?inc = "\<lambda>name. if name = ''operation'' then ''increment'' else if name = ''namespace'' then ''ns1''
        else if name = ''key'' then ''mykey'' else if name = ''admin_key'' then ''k'' else []"
  let ?hat = "\<lambda>name. if name = ''operation'' then ''a^b'' else if name = ''namespace'' then ''ns1''
        else if name = ''key'' then ''mykey'' else []"
  have o: "operationOf ?inc \<notin> {''hit'', ''create'', ''get'', ''info'', ''set'', ''update'', ''reset'', ''delete''}"
    and o': "operationOf ?hat \<notin> {''hit'', ''create'', ''get'', ''info'', ''set'', ''update'', ''reset'', ''delete''}"
    by (simp_all add: operationOf_def)
  have n: "isIdentifier (?inc ''namespace'')" and k: "isIdentifier (?inc ''key'')"
    and n': "isIdentifier (?hat ''namespace'')" and k': "isIdentifier (?hat ''key'')"
    by (simp_all add: isIdentifier_def identifierChar_def)
  have pl: "plainSegment (operationOf ?inc)" and pl': "plainSegment (operationOf ?hat)"
    by code_simp+
  from unknown_operation [OF o n k, of ?pf "\<lambda>n. Rejected (Error ''unused'')"] pl
    unknown_operation [OF o' n' k', of ?pf "\<lambda>n. Rejected (Error ''unused'')"] pl'
  show ?thesis
    by (simp add: operationOf_def BASE_URL_def)
qed

text \<open>C10 as stated fails on an operation that holds a question mark: the operation is
  put into the URL unencoded, so the request has a query, and its path is \<open>/a\<close> alone.\<close>

theorem operation_with_query:
  "prepareRequest \<lparr>JSON_parse = (\<lambda>text. None), formParse = (\<lambda>q. [])\<rparr>
     (\<lambda>name. if name = ''operation'' then ''a?b=1'' else if name = ''namespace'' then ''ns1''
        else if name = ''key'' then ''mykey'' else [])
   = (Inr (''https://abacus.jasoncameron.dev/a?b=1/ns1/mykey'', GET,
           [(''Accept'', ''application/json'')]), [])
   \<and> URL ''https://abacus.jasoncameron.dev/a?b=1/ns1/mykey''
     = \<lparr>origin = ''https://abacus.jasoncameron.dev'', path = [''a''],
         query = Some ''b=1/ns1/mykey'', fragment = None\<rparr>"
  by code_simp

section \<open>Claims about the response interpreter\<close>

text \<open>What \<open>readJsonSafely\<close> returns for a body that was read, whatever function
  \<^verbatim>\<open>JSON.parse\<close> is: the empty mapping for an empty body, the parsed value for a body that
  parses, and the mapping of \<open>error\<close> to the raw text for a body that does not.\<close>

lemma readJsonSafely_read:
  "body res = Inr text \<Longrightarrow>
   readJsonSafely parse res =
     Inr (if text = [] then JObject []
          else (case parse text of Some v \<Rightarrow> v | None \<Rightarrow> JObject [(''error'', JString text)]))"
  by (simp add: readJsonSafely_def split: option.splits)

text \<open>For a response that is not 2xx and whose body was read, the process ends with the
  failure that the payload's \<open>error\<close> string or the status code gives, the operation
  appended; and every error that \<open>run\<close> throws ends as a \<^verbatim>\<open>setFailed\<close> with its message.\<close>

lemma non_2xx_message:
  assumes "prepareRequest pf getInput = (Inr (u, m, headers), evs0)"
    and "requestWithRetries fetch u m headers = (Inr res, evs1)"
    and "\<not> ok res"
    and "readJsonSafely (JSON_parse pf) res = Inr payload"
  shows "main pf getInput fetch =
      evs0 @ evs1 @
      [SetFailed ((case getPropertyOpt payload ''error'' of
                     Some (JString e) \<Rightarrow> e
                   | _ \<Rightarrow> ''Request failed with status '' @ String (int (status res)))
                  @ '' (operation='' @ operationOf getInput @ '')'')]"
  using assms by (simp add: main_def run_def interpretResponse_def)



text \<open>
  C4, at a \<open>create\<close> whose response returns an admin key. The caller's admin key is marked
  secret before the request that carries it (see \<open>prepareRequest\<close>); the returned one is
  written to the output \<open>admin_key\<close> first and marked secret only afterwards.
\<close>

theorem returned_admin_key_output_first:
  "main \<lparr>JSON_parse = (\<lambda>text. Some (JObject [(''value'', JNumber ''5''), (''namespace'', JString ''ns1''),
              (''key'', JString ''mykey''), (''admin_key'', JString ''abc123'')])),
         formParse = (\<lambda>q. [])\<rparr>
    (\<lambda>name. if name = ''operation'' then ''create'' else if name = ''namespace'' then ''ns1''
        else if name = ''key'' then ''mykey'' else if name = ''initializer'' then ''5'' else [])
    (\<lambda>n. Responded \<lparr>status = 200, retry_after = None, body = Inr ''{...}''\<rparr>)
   = [Fetch ''https://abacus.jasoncameron.dev/create/ns1/mykey?initializer=5'' GET
        [(''Accept'', ''application/json'')],
      SetOutput ''value'' ''5'', SetOutput ''namespace'' ''ns1'', SetOutput ''key'' ''mykey'',
      SetOutput ''admin_key'' ''abc123'', SetSecret ''abc123'']"
  by code_simp

end
